theory Spec2Isabelle
  imports Complex_Main
begin

section \<open>terratools/plot.py: data model\<close>

text \<open>
  The module has two entry points, \<open>layer_grid\<close> and \<open>spectral_heterogeneity\<close>, and two
  module globals set while the module is loaded. Numbers are modelled exactly: the
  coordinates, the spacing and the sample values of \<open>layer_grid\<close> are rationals (Python
  ints and the values of finite floats), and so are the spectrum and the depths of
  \<open>spectral_heterogeneity\<close>. The rounding of float operations is not modelled.

  Exceptions are values. \<open>ValueError msg nums\<close> is a \<open>ValueError\<close> raised by one of the
  module's own \<open>raise\<close> statements or by a numpy reduction: \<open>msg\<close> is the message, with
  \<open>{}\<close> where an f-string interpolates a number, and \<open>nums\<close> are those numbers in order.
  \<open>LibraryError\<close> is any exception that leaves a call into matplotlib, cartopy, scipy or
  an array constructor of numpy (its class differs between the libraries' checks).
\<close>

datatype exn =
    ImportError string
  | TypeError string
  | ValueError string "rat list"
  | LibraryError string

text \<open>A grid cell: a number, or the NaN that marks an empty bin.\<close>

datatype cell = Val rat | NaN

text \<open>
  A logarithm as \<open>np.log\<close> returns it, kept symbolic: \<open>Ln x\<close> is the natural logarithm of
  the positive number \<open>x\<close>, \<open>MinusInf\<close> is the logarithm of zero, \<open>LogNaN\<close> that of a
  negative number.
\<close>

datatype logval = MinusInf | Ln rat | LogNaN

type_synonym kwargs = "(string \<times> string) list"

text \<open>
  The calls that leave the module and may raise for reasons of their own: the calls
  into the plotting library, with the arguments that matter, and the array constructors
  whose size follows from the arguments of \<open>layer_grid\<close> and \<open>spectral_heterogeneity\<close>.
  \<open>Plt_subplots kw\<close> is line 64, where the extra keywords go into \<open>subplot_kw\<close> beside the
  projection; \<open>Sh_subplots kw\<close> is line 165, where they go beside \<open>figsize\<close>.
  \<open>Contourf xs deps logged plotmin plotmax n\<close> is
  \<open>ax.contourf(xs, deps, logged, levels=np.linspace(plotmin, plotmax, n))\<close>.
\<close>

datatype call =
    Plt_subplots kwargs
  | Np_arange rat rat rat
  | Np_meshgrid "rat list" "rat list"
  | Imshow "cell list list" "rat list"
  | Set_title_radius int
  | Set_xlabel string
  | Colorbar string
  | Coastlines
  | Sh_subplots kwargs
  | Contourf "int list" "rat list" "logval list list" logval logval nat
  | Set_ylabel string
  | Sh_set_xlabel string
  | Set_xlim int int
  | Set_title string
  | Invert_yaxis
  | Fig_colorbar
  | Cbar_set_label string
  | Savefig string

text \<open>
  What these calls do with their arguments is not in the module. It is a parameter of
  the model: for every call, \<open>None\<close> when it returns and \<open>Some msg\<close> when it raises an
  exception with that message.
\<close>

type_synonym library = "call \<Rightarrow> string option"

text \<open>
  A sequence of calls: they run in order up to the first that raises. The result is that
  exception, if any, and the calls that returned.
\<close>

fun run_calls :: "library \<Rightarrow> call list \<Rightarrow> exn option \<times> call list" where
  "run_calls lib [] = (None, [])"
| "run_calls lib (c # cs) =
     (case lib c of
        Some msg \<Rightarrow> (Some (LibraryError msg), [])
      | None \<Rightarrow> (case run_calls lib cs of (e, done) \<Rightarrow> (e, c # done)))"

text \<open>The module globals \<open>_CARTOPY_INSTALLED\<close> and \<open>_CARTOPY_NOT_INSTALLED_EXCEPTION\<close>.\<close>

record module_globals =
  CARTOPY_INSTALLED :: bool
  CARTOPY_NOT_INSTALLED_EXCEPTION :: "exn option"

text \<open>
  Lines 6-13. The argument is the outcome of \<open>import cartopy.crs\<close>: \<open>None\<close> when the
  import succeeds, \<open>Some msg\<close> when it raises an \<open>ImportError\<close> with that message.
\<close>

definition load_module :: "string option \<Rightarrow> module_globals" where
  "load_module import_cartopy =
     (case import_cartopy of
        None \<Rightarrow> \<lparr>CARTOPY_INSTALLED = True, CARTOPY_NOT_INSTALLED_EXCEPTION = None\<rparr>
      | Some msg \<Rightarrow>
          \<lparr>CARTOPY_INSTALLED = False,
           CARTOPY_NOT_INSTALLED_EXCEPTION = Some (ImportError msg)\<rparr>)"

text \<open>
  The parameters of \<open>layer_grid\<close>; \<open>delta = None\<close> is the omitted spacing. The fields
  \<open>values_in\<close> and \<open>method_in\<close> are the parameters \<open>values\<close> and \<open>method\<close>.
\<close>

record layer_grid_args =
  lon :: "rat list"
  lat :: "rat list"
  radius :: rat
  values_in :: "rat list"
  delta :: "rat option"
  extent :: "rat list"
  label :: "string option"
  method_in :: string
  coastlines :: bool
  subplots_kwargs :: kwargs

text \<open>
  What a call of \<open>layer_grid\<close> has done when it returns or raises: the text written to
  standard error, the figure and axes made by \<open>plt.subplots\<close> (its keyword arguments),
  the spacing settled by lines 83-89, the local variables \<open>grid_lons\<close>, \<open>grid_lats\<close>,
  \<open>grid_lon\<close>, \<open>grid_lat\<close> and \<open>grid\<close> (\<open>None\<close> while unbound), and the drawing calls that
  have returned.
\<close>

record frame =
  st_stderr :: "string list"
  st_fig :: "kwargs option"
  st_delta :: "rat option"
  st_grid_lons :: "rat list option"
  st_grid_lats :: "rat list option"
  st_grid_lon :: "rat list list option"
  st_grid_lat :: "rat list list option"
  st_grid :: "cell list list option"
  st_drawn :: "call list"

definition frame0 :: frame where
  "frame0 = \<lparr>st_stderr = [], st_fig = None, st_delta = None, st_grid_lons = None,
     st_grid_lats = None, st_grid_lon = None, st_grid_lat = None, st_grid = None,
     st_drawn = []\<rparr>"

section \<open>The numpy and scipy functions the module calls\<close>

text \<open>
  \<open>np.arange(start, stop, step)\<close>: the half-open range of
  \<open>ceil((stop - start) / step)\<close> values \<open>start + i * step\<close>. Whether an array of that
  size can be made is asked of the library where the module calls it.
\<close>

definition np_arange :: "rat \<Rightarrow> rat \<Rightarrow> rat \<Rightarrow> rat list" where
  "np_arange start stop step =
     map (\<lambda>i. start + rat_of_nat i * step) [0..<nat \<lceil>(stop - start) / step\<rceil>]"

text \<open>\<open>np.meshgrid(xs, ys)\<close>: two arrays of shape \<open>(len(ys), len(xs))\<close>.\<close>

definition np_meshgrid :: "rat list \<Rightarrow> rat list \<Rightarrow> rat list list \<times> rat list list" where
  "np_meshgrid xs ys = (replicate (length ys) xs, map (\<lambda>y. replicate (length xs) y) ys)"

text \<open>\<open>np.transpose\<close> of an array with \<open>ncols\<close> columns, \<open>np.flip(_, axis=0)\<close>.\<close>

definition np_transpose :: "'a list list \<Rightarrow> nat \<Rightarrow> 'a list list" where
  "np_transpose rows ncols = map (\<lambda>j. map (\<lambda>row. row ! j) rows) [0..<ncols]"

definition np_flip0 :: "'a list list \<Rightarrow> 'a list list" where
  "np_flip0 rows = rev rows"

text \<open>
  \<open>scipy.interpolate.griddata(..., method="nearest")\<close>: every mesh point takes the value
  of a sample at the least Euclidean distance; among several such samples the model
  takes the first (the library's choice follows its search tree). The samples must be
  three sequences of one length. On an empty sample set no mesh point has a neighbour
  and the grid is NaN throughout, as with scipy 1.17.
\<close>

definition sqdist :: "rat \<times> rat \<Rightarrow> rat \<times> rat \<Rightarrow> rat" where
  "sqdist p q = (fst p - fst q) * (fst p - fst q) + (snd p - snd q) * (snd p - snd q)"

fun argmin :: "rat list \<Rightarrow> nat" where
  "argmin [] = 0"
| "argmin [d] = 0"
| "argmin (d # ds) = (let k = argmin ds in if d \<le> ds ! k then 0 else Suc k)"

definition griddata_nearest ::
  "rat list \<Rightarrow> rat list \<Rightarrow> rat list \<Rightarrow> rat list list \<Rightarrow> rat list list \<Rightarrow> exn + cell list list"
where
  "griddata_nearest xs ys vs gx gy =
     (if length ys \<noteq> length xs \<or> length vs \<noteq> length xs then
        Inl (LibraryError ''different number of values and points'')
      else Inr (map (\<lambda>(rx, ry).
                  map (\<lambda>p. if xs = [] then NaN
                           else Val (vs ! argmin (map (sqdist p) (zip xs ys))))
                      (zip rx ry))
                (zip gx gy)))"

text \<open>
  \<open>scipy.stats.binned_statistic_2d(x, y, values, bins=[xedges, yedges])\<close> with the default
  statistic, the mean. The two arrays are bin edges, so there are \<open>len(xedges) - 1\<close> by
  \<open>len(yedges) - 1\<close> bins. As the library does, the model numbers the bin of every
  sample on each axis with \<open>np.digitize\<close> (0 and \<open>len(edges)\<close> are the outlier bins below
  and above the edges), moves a sample on the last edge into the last bin, flattens the
  two numbers into one index, accumulates the sum and the count of every flat bin with
  \<open>np.bincount\<close>, divides where the count is not zero and leaves NaN elsewhere, and cuts
  the outlier bins off.

  A sample is on the last edge when it is not below it and both are equal after
  \<open>np.around\<close> to \<open>int(-log10(w)) + 6\<close> decimals, where \<open>w\<close> is the least width of a bin
  of the axis. \<open>np.around\<close> scales by the power of ten, rounds to the nearest integer,
  halves to the even one, and scales back. \<open>int\<close> truncates toward zero, so
  \<open>int(-log10(w))\<close> is minus the integer part of \<open>log10(w)\<close> for \<open>w \<ge> 1\<close> and the integer
  part of \<open>log10(1 / w)\<close> below; the integer part of \<open>log10\<close> of a number from 1 on is
  that of its floor.

  On an empty sample set, and on fewer than two edges on an axis, a reduction over an
  empty array raises; so does a least width of zero.
\<close>

definition np_digitize :: "rat \<Rightarrow> rat list \<Rightarrow> nat" where
  "np_digitize x edges = length (takeWhile (\<lambda>e. e \<le> x) edges)"

definition np_diff :: "rat list \<Rightarrow> rat list" where
  "np_diff edges = map (\<lambda>(a, b). b - a) (zip edges (tl edges))"

function floor_log10 :: "nat \<Rightarrow> nat" where
  "floor_log10 n = (if n < 10 then 0 else Suc (floor_log10 (n div 10)))"
  by pat_completeness auto
termination
  by (relation "measure (\<lambda>n. n)") auto

declare floor_log10.simps [simp del]

definition edge_decimals :: "rat list \<Rightarrow> int" where
  "edge_decimals edges =
     (let w = min_list (np_diff edges)
      in (if 1 \<le> w then - int (floor_log10 (nat \<lfloor>w\<rfloor>))
          else int (floor_log10 (nat \<lfloor>1 / w\<rfloor>))) + 6)"

definition round_half_even :: "rat \<Rightarrow> int" where
  "round_half_even x =
     (let f = \<lfloor>x\<rfloor>; r = x - rat_of_int f
      in if r < 1 / 2 then f else if 1 / 2 < r then f + 1
         else if even f then f else f + 1)"

definition np_around :: "rat \<Rightarrow> int \<Rightarrow> rat" where
  "np_around x decimals =
     (if 0 \<le> decimals
      then rat_of_int (round_half_even (x * 10 ^ nat decimals)) / 10 ^ nat decimals
      else rat_of_int (round_half_even (x / 10 ^ nat (- decimals))) * 10 ^ nat (- decimals))"

definition on_last_edge :: "rat list \<Rightarrow> rat \<Rightarrow> bool" where
  "on_last_edge edges x \<longleftrightarrow>
     last edges \<le> x
     \<and> np_around x (edge_decimals edges) = np_around (last edges) (edge_decimals edges)"

definition bin_number :: "rat list \<Rightarrow> rat \<Rightarrow> nat" where
  "bin_number edges x =
     (if on_last_edge edges x then np_digitize x edges - 1 else np_digitize x edges)"

definition np_bincount :: "nat list \<Rightarrow> 'a::monoid_add list \<Rightarrow> nat \<Rightarrow> 'a list" where
  "np_bincount ks ws n =
     fold (\<lambda>(k, w) acc. acc[k := acc ! k + w]) (zip ks ws) (replicate n 0)"

definition binned_statistic_2d ::
  "rat list \<Rightarrow> rat list \<Rightarrow> rat list \<Rightarrow> rat list \<Rightarrow> rat list \<Rightarrow> exn + cell list list"
where
  "binned_statistic_2d xs ys vs xedges yedges =
     (if length ys \<noteq> length xs \<or> length vs \<noteq> length xs then
        Inl (LibraryError ''The number of values elements must match the length of each sample dimension.'')
      else if xs = [] \<or> length xedges < 2 \<or> length yedges < 2 then
        Inl (LibraryError ''zero-size array to reduction operation minimum which has no identity'')
      else if min_list (np_diff xedges) = 0 \<or> min_list (np_diff yedges) = 0 then
        Inl (LibraryError ''The smallest edge difference is numerically 0.'')
      else
        let nbx = length xedges + 1;
            nby = length yedges + 1;
            binnumbers = map (\<lambda>(x, y). bin_number xedges x * nby + bin_number yedges y)
                             (zip xs ys);
            flatcount = np_bincount binnumbers (replicate (length binnumbers) (1::nat))
                                    (nbx * nby);
            flatsum = np_bincount binnumbers vs (nbx * nby);
            result = map (\<lambda>(s, c). if c = 0 then NaN else Val (s / rat_of_nat c))
                         (zip flatsum flatcount)
        in Inr (map (\<lambda>i. map (\<lambda>j. result ! (i * nby + j)) [1..<nby - 1]) [1..<nbx - 1]))"

section \<open>layer_grid\<close>

text \<open>\<open>int(radius)\<close> truncates toward zero.\<close>

definition py_int :: "rat \<Rightarrow> int" where
  "py_int r = (if 0 \<le> r then \<lfloor>r\<rfloor> else \<lceil>r\<rceil>)"

text \<open>Lines 109-129: the calls that draw the grid, in order.\<close>

definition render :: "layer_grid_args \<Rightarrow> cell list list \<Rightarrow> call list" where
  "render a g =
     [Imshow g (extent a),
      Set_title_radius (py_int (radius a)),
      Set_xlabel (case label a of None \<Rightarrow> ''None'' | Some l \<Rightarrow> l),
      Colorbar (case label a of None \<Rightarrow> [] | Some l \<Rightarrow> l)]
     @ (if coastlines a then [Coastlines] else [])"

text \<open>
  Lines 109-131: the grid is drawn; the figure and axes are returned when every drawing
  call has returned.
\<close>

definition draw_grid ::
  "library \<Rightarrow> layer_grid_args \<Rightarrow> cell list list \<Rightarrow> frame
     \<Rightarrow> (exn + kwargs \<times> call list) \<times> frame"
where
  "draw_grid lib a g s =
     (case run_calls lib (render a g) of
        (None, done) \<Rightarrow> (Inr (subplots_kwargs a, done), s\<lparr>st_drawn := done\<rparr>)
      | (Some e, done) \<Rightarrow> (Inl e, s\<lparr>st_drawn := done\<rparr>))"

text \<open>Lines 95-107: the grid by the chosen method, flipped so that row 0 is the north.\<close>

definition compute_grid ::
  "layer_grid_args \<Rightarrow> rat list \<Rightarrow> rat list \<Rightarrow> rat list list \<Rightarrow> rat list list
     \<Rightarrow> exn + cell list list"
where
  "compute_grid a grid_lons grid_lats grid_lon grid_lat =
     (if method_in a = ''nearest'' then
        (case griddata_nearest (lon a) (lat a) (values_in a) grid_lon grid_lat of
           Inl e \<Rightarrow> Inl e
         | Inr g \<Rightarrow> Inr (np_flip0 g))
      else if method_in a = ''mean'' then
        (case binned_statistic_2d (lon a) (lat a) (values_in a) grid_lons grid_lats of
           Inl e \<Rightarrow> Inl e
         | Inr g \<Rightarrow> Inr (np_flip0 (np_transpose g (length grid_lats - 1))))
      else Inl (ValueError (''unsupported method '' @ [CHR 0x27] @ method_in a @ [CHR 0x27]) []))"

text \<open>
  Lines 91-131, with the spacing \<open>d\<close> settled: the grid lines, the mesh, the grid, the
  drawing. The extent has four values here, unpacked at line 81.
\<close>

definition build_and_draw ::
  "library \<Rightarrow> layer_grid_args \<Rightarrow> rat \<Rightarrow> frame \<Rightarrow> (exn + kwargs \<times> call list) \<times> frame"
where
  "build_and_draw lib a d s1 =
     (let minlon = extent a ! 0; maxlon = extent a ! 1;
          minlat = extent a ! 2; maxlat = extent a ! 3;
          s = s1\<lparr>st_delta := Some d\<rparr>
      in case lib (Np_arange minlon maxlon d) of
           Some msg \<Rightarrow> (Inl (LibraryError msg), s)
         | None \<Rightarrow>
            (let grid_lons = np_arange minlon maxlon d;
                 s2 = s\<lparr>st_grid_lons := Some grid_lons\<rparr>
             in case lib (Np_arange minlat maxlat d) of
                  Some msg \<Rightarrow> (Inl (LibraryError msg), s2)
                | None \<Rightarrow>
                   (let grid_lats = np_arange minlat maxlat d;
                        s3 = s2\<lparr>st_grid_lats := Some grid_lats\<rparr>
                    in case lib (Np_meshgrid grid_lons grid_lats) of
                         Some msg \<Rightarrow> (Inl (LibraryError msg), s3)
                       | None \<Rightarrow>
                          (let (grid_lon, grid_lat) = np_meshgrid grid_lons grid_lats;
                               s4 = s3\<lparr>st_grid_lon := Some grid_lon,
                                       st_grid_lat := Some grid_lat\<rparr>
                           in case compute_grid a grid_lons grid_lats grid_lon grid_lat of
                                Inl e \<Rightarrow> (Inl e, s4)
                              | Inr g \<Rightarrow> draw_grid lib a g (s4\<lparr>st_grid := Some g\<rparr>)))))"

text \<open>Lines 60-89: the gate on the mapping library, the figure, the validation.\<close>

definition layer_grid ::
  "library \<Rightarrow> module_globals \<Rightarrow> layer_grid_args \<Rightarrow> (exn + kwargs \<times> call list) \<times> frame"
where
  "layer_grid lib m a =
     (if \<not> CARTOPY_INSTALLED m then
        (Inl (case CARTOPY_NOT_INSTALLED_EXCEPTION m of
                Some e \<Rightarrow> e
              | None \<Rightarrow> TypeError ''exceptions must derive from BaseException''),
         frame0\<lparr>st_stderr := [''layer_grid require cartopy to be installed'']\<rparr>)
      else
        case lib (Plt_subplots (subplots_kwargs a)) of
          Some msg \<Rightarrow> (Inl (LibraryError msg), frame0)
        | None \<Rightarrow>
           (let s1 = frame0\<lparr>st_fig := Some (subplots_kwargs a)\<rparr> in
            if length (extent a) \<noteq> 4 then
              (Inl (ValueError ''extent must contain four values'' []), s1)
            else if extent a ! 1 \<le> extent a ! 0 then
              (Inl (ValueError ''maximum longitude must be more than minimum; havemin = {} and max = {}''
                      [extent a ! 0, extent a ! 1]), s1)
            else if extent a ! 3 \<le> extent a ! 2 then
              (Inl (ValueError ''maximum latitude must be more than minimum; havemin = {} and max = {}''
                      [extent a ! 2, extent a ! 3]), s1)
            else
              let minlon = extent a ! 0; maxlon = extent a ! 1;
                  minlat = extent a ! 2; maxlat = extent a ! 3
              in (case delta a of
                    None \<Rightarrow>
                      (let lonrange = maxlon - minlon;
                           latrange = maxlat - minlat;
                           max_range = max lonrange latrange
                       in build_and_draw lib a (max_range / 200) s1)
                  | Some d \<Rightarrow>
                      if d \<le> 0 then (Inl (ValueError ''delta must be more than 0'' []), s1)
                      else build_and_draw lib a d s1)))"

section \<open>spectral_heterogeneity\<close>

text \<open>The parameters of \<open>spectral_heterogeneity\<close>.\<close>

record sh_args =
  indat :: "rat list list"
  title :: "string option"
  depths :: "rat list"
  lmin :: int
  lmax :: int
  saveplot :: bool
  savepath :: "string option"
  lyrmin :: int
  lyrmax :: int
  sh_subplots_kwargs :: kwargs

text \<open>
  A slice \<open>xs[lo:hi]\<close> of Python and numpy: a negative bound counts from the end, and
  both bounds are clipped to the length.
\<close>

definition py_clip :: "int \<Rightarrow> nat \<Rightarrow> nat" where
  "py_clip i n = (if i < 0 then nat (max (i + int n) 0) else min (nat i) n)"

definition py_slice :: "'a list \<Rightarrow> int \<Rightarrow> int \<Rightarrow> 'a list" where
  "py_slice xs lo hi =
     (let n = length xs; l = py_clip lo n; h = py_clip hi n in take (h - l) (drop l xs))"

text \<open>\<open>a[r0:r1, c0:c1]\<close> on a two-dimensional array.\<close>

definition py_slice2 :: "'a list list \<Rightarrow> int \<Rightarrow> int \<Rightarrow> int \<Rightarrow> int \<Rightarrow> 'a list list" where
  "py_slice2 rows r0 r1 c0 c1 = map (\<lambda>row. py_slice row c0 c1) (py_slice rows r0 r1)"

text \<open>
  \<open>np.log\<close>: the logarithm of a positive number, \<open>-inf\<close> at zero, NaN below. The
  logarithm is increasing, so the least and the greatest of two logarithms are those of
  the least and the greatest argument. \<open>np.min\<close> and \<open>np.max\<close> return NaN when the array
  holds one, and raise on an array with no element.
\<close>

definition np_log :: "rat \<Rightarrow> logval" where
  "np_log x = (if 0 < x then Ln x else if x = 0 then MinusInf else LogNaN)"

fun fmin :: "logval \<Rightarrow> logval \<Rightarrow> logval" where
  "fmin LogNaN y = LogNaN"
| "fmin x LogNaN = LogNaN"
| "fmin MinusInf y = MinusInf"
| "fmin x MinusInf = MinusInf"
| "fmin (Ln a) (Ln b) = Ln (min a b)"

fun fmax :: "logval \<Rightarrow> logval \<Rightarrow> logval" where
  "fmax LogNaN y = LogNaN"
| "fmax x LogNaN = LogNaN"
| "fmax MinusInf y = y"
| "fmax x MinusInf = x"
| "fmax (Ln a) (Ln b) = Ln (max a b)"

definition np_min :: "logval list list \<Rightarrow> exn + logval" where
  "np_min arr =
     (case concat arr of
        [] \<Rightarrow> Inl (ValueError ''zero-size array to reduction operation minimum which has no identity'' [])
      | x # xs \<Rightarrow> Inr (fold fmin xs x))"

definition np_max :: "logval list list \<Rightarrow> exn + logval" where
  "np_max arr =
     (case concat arr of
        [] \<Rightarrow> Inl (ValueError ''zero-size array to reduction operation maximum which has no identity'' [])
      | x # xs \<Rightarrow> Inr (fold fmax xs x))"

text \<open>
  What a call of \<open>spectral_heterogeneity\<close> has done when it returns or raises: the
  locals \<open>logged\<close> and \<open>deps\<close>, the figure made by \<open>plt.subplots\<close> and the plotting calls that
  have returned.
\<close>

record sh_frame =
  sh_logged :: "logval list list option"
  sh_deps :: "rat list option"
  sh_fig :: "kwargs option"
  sh_drawn :: "call list"

definition sh_frame0 :: sh_frame where
  "sh_frame0 = \<lparr>sh_logged = None, sh_deps = None, sh_fig = None, sh_drawn = []\<rparr>"

text \<open>
  Lines 170-189: the plotting calls, in order, with \<open>plt.savefig\<close> last when the figure
  is to be saved.
\<close>

definition sh_render ::
  "sh_args \<Rightarrow> rat list \<Rightarrow> logval list list \<Rightarrow> logval \<Rightarrow> logval \<Rightarrow> call list"
where
  "sh_render a deps logged plotmin plotmax =
     [Contourf [lmin a..lmax a] deps logged plotmin plotmax 10,
      Set_ylabel ''Depth (km)'',
      Sh_set_xlabel ''L'',
      Set_xlim (lmin a - 1) (lmax a + 1),
      Set_title
        (case title a of
           None \<Rightarrow> ''Spherical Harmonic Power Spectrum''
         | Some t \<Rightarrow> ''Spherical Harmonic Power Spectrum '' @ [CHR 0x0A]
                      @ '' for '' @ t @ '' field''),
      Invert_yaxis,
      Fig_colorbar,
      Cbar_set_label ''ln(Power)'']
     @ (if saveplot a then
          [Savefig ((case savepath a of None \<Rightarrow> ''.'' | Some p \<Rightarrow> p)
                    @ ''/powers_''
                    @ (case title a of None \<Rightarrow> [] | Some t \<Rightarrow> t)
                    @ ''.pdf'')]
        else [])"

text \<open>
  Lines 162-191. The function reads none of the module globals. \<open>np.arange(lmin, lmax + 1)\<close>
  of line 170 is evaluated before \<open>ax.contourf\<close> is called.
\<close>

definition spectral_heterogeneity ::
  "library \<Rightarrow> module_globals \<Rightarrow> sh_args \<Rightarrow> (exn + kwargs \<times> call list) \<times> sh_frame"
where
  "spectral_heterogeneity lib m a =
     (let logged = map (map np_log)
                     (py_slice2 (indat a) (lyrmin a) (lyrmax a) (lmin a) (lmax a + 1));
          deps = py_slice (depths a) (lyrmin a) (lyrmax a);
          s0 = sh_frame0\<lparr>sh_logged := Some logged, sh_deps := Some deps\<rparr>
      in case lib (Sh_subplots (sh_subplots_kwargs a)) of
           Some msg \<Rightarrow> (Inl (LibraryError msg), s0)
         | None \<Rightarrow>
            (let s1 = s0\<lparr>sh_fig := Some (sh_subplots_kwargs a)\<rparr>
             in case np_min logged of
                  Inl e \<Rightarrow> (Inl e, s1)
                | Inr plotmin \<Rightarrow>
                   (case np_max logged of
                      Inl e \<Rightarrow> (Inl e, s1)
                    | Inr plotmax \<Rightarrow>
                       (case lib (Np_arange (rat_of_int (lmin a)) (rat_of_int (lmax a + 1)) 1) of
                          Some msg \<Rightarrow> (Inl (LibraryError msg), s1)
                        | None \<Rightarrow>
                           (case run_calls lib (sh_render a deps logged plotmin plotmax) of
                              (None, done) \<Rightarrow>
                                (Inr (sh_subplots_kwargs a, done), s1\<lparr>sh_drawn := done\<rparr>)
                            | (Some e, done) \<Rightarrow> (Inl e, s1\<lparr>sh_drawn := done\<rparr>))))))"

section \<open>Notions used in the statements\<close>

text \<open>The shape of a two-dimensional array: \<open>rows\<close> rows of \<open>cols\<close> entries each.\<close>

definition has_shape :: "'a list list \<Rightarrow> nat \<Rightarrow> nat \<Rightarrow> bool" where
  "has_shape arr rows cols \<longleftrightarrow> length arr = rows \<and> list_all (\<lambda>row. length row = cols) arr"

text \<open>
  The exceptions of the five \<open>raise ValueError\<close> statements of \<open>layer_grid\<close>
  (lines 69, 71, 76, 89 and 105).
\<close>

definition validation_errors :: "layer_grid_args \<Rightarrow> exn list" where
  "validation_errors a =
     [ValueError ''extent must contain four values'' [],
      ValueError ''maximum longitude must be more than minimum; havemin = {} and max = {}''
        [extent a ! 0, extent a ! 1],
      ValueError ''maximum latitude must be more than minimum; havemin = {} and max = {}''
        [extent a ! 2, extent a ! 3],
      ValueError ''delta must be more than 0'' [],
      ValueError (''unsupported method '' @ [CHR 0x27] @ method_in a @ [CHR 0x27]) []]"

text \<open>The library lets every call of a list return.\<close>

definition accepts :: "library \<Rightarrow> call list \<Rightarrow> bool" where
  "accepts lib cs \<longleftrightarrow> list_all (\<lambda>c. lib c = None) cs"

text \<open>
  The calls of lines 91-93 for the spacing \<open>d\<close>: the longitude lines, the latitude lines
  and the mesh.
\<close>

definition array_calls :: "layer_grid_args \<Rightarrow> rat \<Rightarrow> call list" where
  "array_calls a d =
     [Np_arange (extent a ! 0) (extent a ! 1) d,
      Np_arange (extent a ! 2) (extent a ! 3) d,
      Np_meshgrid (np_arange (extent a ! 0) (extent a ! 1) d)
                  (np_arange (extent a ! 2) (extent a ! 3) d)]"

text \<open>
  The calls of \<open>spectral_heterogeneity\<close> for the logged slice \<open>L\<close> with least entry \<open>lo\<close>
  and greatest entry \<open>hi\<close>: the figure (line 165), the degrees (line 170) and the
  plotting calls.
\<close>

definition sh_calls :: "sh_args \<Rightarrow> logval list list \<Rightarrow> logval \<Rightarrow> logval \<Rightarrow> call list" where
  "sh_calls a L lo hi =
     [Sh_subplots (sh_subplots_kwargs a),
      Np_arange (rat_of_int (lmin a)) (rat_of_int (lmax a + 1)) 1]
     @ sh_render a (py_slice (depths a) (lyrmin a) (lyrmax a)) L lo hi"

text \<open>
  Bin \<open>i\<close> of an axis with the given edges: from edge \<open>i\<close> up to but not including edge
  \<open>i + 1\<close>. The last bin also holds the samples on the last edge: those equal to it, and
  those above it that round to the same number.
\<close>

definition in_bin :: "rat list \<Rightarrow> nat \<Rightarrow> rat \<Rightarrow> bool" where
  "in_bin edges i x \<longleftrightarrow>
     edges ! i \<le> x
     \<and> (x < edges ! Suc i \<or> (Suc i = length edges - 1 \<and> on_last_edge edges x))"

text \<open>The arithmetic mean of the values, NaN when there is none.\<close>

definition mean_cell :: "rat list \<Rightarrow> cell" where
  "mean_cell vs = (if vs = [] then NaN else Val (sum_list vs / rat_of_nat (length vs)))"

text \<open>The values of the samples whose longitude is in bin \<open>c\<close> and latitude in bin \<open>r\<close>.\<close>

definition samples_in ::
  "layer_grid_args \<Rightarrow> rat list \<Rightarrow> rat list \<Rightarrow> nat \<Rightarrow> nat \<Rightarrow> rat list" where
  "samples_in a xedges yedges c r =
     map (\<lambda>(x, y, v). v)
       (filter (\<lambda>(x, y, v). in_bin xedges c x \<and> in_bin yedges r y)
          (zip (lon a) (zip (lat a) (values_in a))))"

text \<open>Edges that increase strictly, as the grid lines that \<open>np.arange\<close> makes do.\<close>

definition increasing :: "rat list \<Rightarrow> bool" where
  "increasing es \<longleftrightarrow> (\<forall>i j. i < j \<and> j < length es \<longrightarrow> es ! i < es ! j)"

section \<open>Example calls\<close>

text \<open>The module as loaded with the mapping library, and without it.\<close>

definition cartopy_present :: module_globals where
  "cartopy_present = load_module None"

definition cartopy_absent :: module_globals where
  "cartopy_absent = load_module (Some ''No module named cartopy'')"

text \<open>
  A library with some refusals of the real ones: \<open>figsize\<close> is no keyword of the axes
  of line 64 and is given twice at line 165; a range of more than \<open>2 ^ 63 - 1\<close> values
  cannot be made; an image needs two rows; a filled contour needs a slice of at least
  two rows and two columns that fits its coordinates, and finite levels that increase.
  Every other call returns.
\<close>

definition has_figsize :: "kwargs \<Rightarrow> bool" where
  "has_figsize kw \<longleftrightarrow> ''figsize'' \<in> set (map fst kw)"

definition finite_log :: "logval \<Rightarrow> bool" where
  "finite_log v = (case v of Ln x \<Rightarrow> True | MinusInf \<Rightarrow> False | LogNaN \<Rightarrow> False)"

definition strict_library :: library where
  "strict_library c =
     (case c of
        Plt_subplots kw \<Rightarrow>
          if has_figsize kw then Some ''unexpected keyword argument figsize'' else None
      | Sh_subplots kw \<Rightarrow>
          if has_figsize kw then Some ''multiple values for keyword argument figsize'' else None
      | Np_arange start stop step \<Rightarrow>
          if 2 ^ 63 \<le> \<lceil>(stop - start) / step\<rceil> then Some ''Maximum allowed size exceeded''
          else None
      | Imshow g ext \<Rightarrow> if length g < 2 then Some ''image of one row'' else None
      | Contourf xs deps logged plotmin plotmax n \<Rightarrow>
          if length logged < 2 \<or> length xs < 2 \<or> length deps \<noteq> length logged
             \<or> \<not> list_all (\<lambda>row. length row = length xs) logged
          then Some ''Input z must be at least a (2, 2) shaped array that fits x and y''
          else if \<not> finite_log plotmin \<or> \<not> finite_log plotmax \<or> plotmin = plotmax
          then Some ''Contour levels must be increasing''
          else None
      | _ \<Rightarrow> None)"

text \<open>
  \<open>layer_grid([0, 100], [0, -45], 6370, [1, 3], delta=90)\<close> on the default extent with
  the default method, and the same call with \<open>method="mean"\<close>.
\<close>

definition example_call :: layer_grid_args where
  "example_call = \<lparr>lon = [0, 100], lat = [0, - 45], radius = 6370, values_in = [1, 3],
     delta = Some 90, extent = [- 180, 180, - 90, 90], label = None, method_in = ''nearest'',
     coastlines = True, subplots_kwargs = []\<rparr>"

definition mean_call :: layer_grid_args where
  "mean_call = example_call\<lparr>method_in := ''mean''\<rparr>"

text \<open>
  A call with \<open>method="mean"\<close> and \<open>delta=60\<close> on the default extent. Two samples share a
  bin, and one lies a millionth of a degree east of the last longitude line, 120.
\<close>

definition binned_call :: layer_grid_args where
  "binned_call = \<lparr>lon = [0, 10, 120000001 / 1000000], lat = [- 45, - 50, 0], radius = 6370,
     values_in = [1, 4, 3], delta = Some 60, extent = [- 180, 180, - 90, 90], label = None,
     method_in = ''mean'', coastlines = False, subplots_kwargs = []\<rparr>"

text \<open>
  A spectrum of shape (10, 21) with the power \<open>l + 1\<close> at degree \<open>l\<close> in every layer,
  plotted for the degrees 2 to 10 and the layers 1 to 4.
\<close>

definition spectrum_call :: sh_args where
  "spectrum_call = \<lparr>indat = replicate 10 (map rat_of_nat [1..<22]), title = None,
     depths = [0, 100, 200, 300, 400, 500, 600, 700, 800, 900], lmin = 2, lmax = 10,
     saveplot = False, savepath = None, lyrmin = 1, lyrmax = 5, sh_subplots_kwargs = []\<rparr>"

section \<open>Facts about the numpy and scipy functions\<close>

subsection \<open>np.arange\<close>

lemma length_np_arange: "length (np_arange a b d) = nat \<lceil>(b - a) / d\<rceil>"
  by (simp add: np_arange_def)

lemma nth_np_arange:
  "i < length (np_arange a b d) \<Longrightarrow> np_arange a b d ! i = a + rat_of_nat i * d"
  by (simp add: np_arange_def)

lemma np_arange_increasing:
  assumes "0 < d" and "i < j" and "j < length (np_arange a b d)"
  shows "np_arange a b d ! i < np_arange a b d ! j"
  using assms by (simp add: nth_np_arange)

lemma np_arange_nonempty:
  assumes "0 < d" and "a < b"
  shows "np_arange a b d \<noteq> []"
proof -
  have "0 < (b - a) / d" using assms by simp
  then have "0 < \<lceil>(b - a) / d\<rceil>" by simp
  then show ?thesis
    using length_np_arange [of a b d] by (cases "np_arange a b d") simp_all
qed

subsection \<open>np.bincount\<close>

lemma fold_bincount_length:
  "length (fold (\<lambda>(k, w) acc. acc[k := acc ! k + w]) kws acc) = length acc"
  by (induction kws arbitrary: acc) (auto split: prod.splits)

lemma fold_bincount_nth:
  fixes acc :: "'a::monoid_add list"
  assumes "k < length acc"
  shows "fold (\<lambda>(k, w) acc. acc[k := acc ! k + w]) kws acc ! k
           = acc ! k + sum_list (map snd (filter (\<lambda>p. fst p = k) kws))"
  using assms
proof (induction kws arbitrary: acc)
  case Nil
  then show ?case by simp
next
  case (Cons kw kws)
  obtain k' w where kw: "kw = (k', w)" by (cases kw)
  have len: "k < length (acc[k' := acc ! k' + w])" using Cons.prems by simp
  show ?case
    using Cons.IH [OF len] Cons.prems
    by (cases "k' = k") (simp_all add: kw add.assoc)
qed

lemma np_bincount_length: "length (np_bincount ks ws n) = n"
  by (simp add: np_bincount_def fold_bincount_length)

lemma np_bincount_nth:
  fixes ws :: "'a::monoid_add list"
  assumes "k < n"
  shows "np_bincount ks ws n ! k = sum_list (map snd (filter (\<lambda>p. fst p = k) (zip ks ws)))"
  using assms by (simp add: np_bincount_def fold_bincount_nth)

lemma selected_weights:
  assumes "length ys = length xs" and "length vs = length xs"
  shows "map snd (filter (\<lambda>p. fst p = K) (zip (map f (zip xs ys)) vs))
           = map (\<lambda>(x, y, v). v) (filter (\<lambda>(x, y, v). f (x, y) = K) (zip xs (zip ys vs)))"
  using assms
proof (induction xs arbitrary: ys vs)
  case Nil
  then show ?case by simp
next
  case (Cons x xs)
  then obtain y ys' v vs' where "ys = y # ys'" and "vs = v # vs'"
    by (cases ys; cases vs) auto
  then show ?case using Cons by simp
qed

lemma selected_count:
  assumes "length ys = length xs" and "length vs = length xs"
  shows "sum_list (map snd (filter (\<lambda>p. fst p = K)
             (zip (map f (zip xs ys)) (replicate (length (map f (zip xs ys))) (1::nat)))))
           = length (filter (\<lambda>(x, y, v). f (x, y) = K) (zip xs (zip ys vs)))"
  using assms
proof (induction xs arbitrary: ys vs)
  case Nil
  then show ?case by simp
next
  case (Cons x xs)
  then obtain y ys' v vs' where "ys = y # ys'" and "vs = v # vs'"
    by (cases ys; cases vs) auto
  then show ?case using Cons by simp
qed

subsection \<open>np.digitize and the bin of a sample\<close>

lemma increasing_le:
  assumes "increasing es" and "i \<le> j" and "j < length es"
  shows "es ! i \<le> es ! j"
  using assms by (cases "i = j") (auto simp add: increasing_def less_imp_le)

lemma np_digitize_le: "np_digitize x es \<le> length es"
  by (simp add: np_digitize_def length_takeWhile_le)

lemma np_digitize_eq:
  assumes "increasing es" and "k \<le> length es"
    and "\<And>j. j < k \<Longrightarrow> es ! j \<le> x"
    and "k < length es \<Longrightarrow> x < es ! k"
  shows "np_digitize x es = k"
proof -
  have "takeWhile (\<lambda>e. e \<le> x) es = take k es"
    using assms(3,4) by (intro takeWhile_eq_take_P_nth) (auto simp add: not_le)
  then show ?thesis
    using assms(2) by (simp add: np_digitize_def)
qed

lemma np_digitize_below:
  assumes "j < np_digitize x es"
  shows "es ! j \<le> x"
proof -
  have "takeWhile (\<lambda>e. e \<le> x) es ! j \<in> set (takeWhile (\<lambda>e. e \<le> x) es)"
    using assms by (simp add: np_digitize_def)
  then have "takeWhile (\<lambda>e. e \<le> x) es ! j \<le> x"
    by (auto dest: set_takeWhileD)
  then show ?thesis
    using assms by (simp add: np_digitize_def takeWhile_nth)
qed

lemma np_digitize_above:
  assumes "np_digitize x es < length es"
  shows "x < es ! np_digitize x es"
  using assms nth_length_takeWhile [of "\<lambda>e. e \<le> x" es]
  by (simp add: np_digitize_def not_le)

lemma bin_number_le: "bin_number es x \<le> length es"
proof -
  have "np_digitize x es - 1 \<le> length es"
    using np_digitize_le [of x es] by simp
  then show ?thesis
    using np_digitize_le [of x es] by (simp only: bin_number_def split: if_splits) simp
qed

lemma bin_number_in_bin:
  assumes inc: "increasing es" and i: "Suc i < length es"
  shows "bin_number es x = Suc i \<longleftrightarrow> in_bin es i x"
proof (cases "on_last_edge es x")
  case True
  have ne: "es \<noteq> []" using i by auto
  have top: "es ! (length es - 1) \<le> x"
    using True ne by (simp add: on_last_edge_def last_conv_nth)
  have "np_digitize x es = length es"
  proof (rule np_digitize_eq [OF inc])
    show "es ! j \<le> x" if "j < length es" for j
    proof -
      have "es ! j \<le> es ! (length es - 1)"
        using that by (intro increasing_le [OF inc]) simp_all
      then show ?thesis using top by simp
    qed
  qed simp_all
  then have bn: "bin_number es x = length es - 1"
    using True by (simp add: bin_number_def)
  show ?thesis
  proof (cases "Suc i = length es - 1")
    case last: True
    have "es ! i \<le> es ! (length es - 1)"
      using i by (intro increasing_le [OF inc]) simp_all
    then have "es ! i \<le> x" using top by simp
    then show ?thesis using bn last True by (simp add: in_bin_def)
  next
    case False
    then have "Suc i < length es - 1" using i by simp
    then have "es ! Suc i < es ! (length es - 1)"
      using inc by (simp add: increasing_def)
    then have "es ! Suc i < x" using top by simp
    then show ?thesis using bn False by (auto simp add: in_bin_def)
  qed
next
  case False
  have bn: "bin_number es x = np_digitize x es"
    using False by (simp add: bin_number_def)
  show ?thesis
  proof
    assume "bin_number es x = Suc i"
    then have d: "np_digitize x es = Suc i" using bn by simp
    have "es ! i \<le> x" using np_digitize_below [of i x es] d by simp
    moreover have "x < es ! Suc i" using np_digitize_above [of x es] d i by simp
    ultimately show "in_bin es i x" by (simp add: in_bin_def)
  next
    assume b: "in_bin es i x"
    have lo: "es ! i \<le> x" using b by (simp add: in_bin_def)
    have hi: "x < es ! Suc i"
      using b False by (auto simp add: in_bin_def)
    have "np_digitize x es = Suc i"
    proof (rule np_digitize_eq [OF inc])
      show "Suc i \<le> length es" using i by simp
      show "es ! j \<le> x" if "j < Suc i" for j
        using increasing_le [OF inc, of j i] that i lo by simp
      show "x < es ! Suc i" by (rule hi)
    qed
    then show "bin_number es x = Suc i" using bn by simp
  qed
qed

lemma np_arange_is_increasing: "0 < d \<Longrightarrow> increasing (np_arange a b d)"
  by (simp add: increasing_def np_arange_increasing)

subsection \<open>binned_statistic_2d and griddata\<close>

lemma flat_index_eq:
  assumes "b < n" and "j < (n::nat)"
  shows "a * n + b = i * n + j \<longleftrightarrow> a = i \<and> b = j"
proof
  assume eq: "a * n + b = i * n + j"
  have "(a * n + b) div n = a" and "(i * n + j) div n = i"
    using assms by simp_all
  then have "a = i" using eq by simp
  then show "a = i \<and> b = j" using eq by simp
qed simp

lemma mean_cell_of_sum_count:
  "(if length sel = 0 then NaN else Val (sum_list sel / rat_of_nat (length sel))) = mean_cell sel"
  by (simp add: mean_cell_def)

lemma binned_statistic_2d_cells:
  assumes ran: "binned_statistic_2d xs ys vs xedges yedges = Inr stat0"
    and incx: "increasing xedges" and incy: "increasing yedges"
  shows "length stat0 = length xedges - 1
     \<and> (\<forall>i<length xedges - 1. length (stat0 ! i) = length yedges - 1
          \<and> (\<forall>j<length yedges - 1.
                stat0 ! i ! j =
                  mean_cell (map (\<lambda>(x, y, v). v)
                    (filter (\<lambda>(x, y, v). in_bin xedges i x \<and> in_bin yedges j y)
                       (zip xs (zip ys vs))))))"
proof -
  have lens: "length ys = length xs" "length vs = length xs"
    and ok: "xs \<noteq> []" "2 \<le> length xedges" "2 \<le> length yedges"
      "min_list (np_diff xedges) \<noteq> 0" "min_list (np_diff yedges) \<noteq> 0"
    using ran by (auto simp add: binned_statistic_2d_def split: if_splits)
  define nbx where "nbx = length xedges + 1"
  define nby where "nby = length yedges + 1"
  define f where "f = (\<lambda>(x, y). bin_number xedges x * nby + bin_number yedges y)"
  define binnumbers where "binnumbers = map f (zip xs ys)"
  define flatcount where
    "flatcount = np_bincount binnumbers (replicate (length binnumbers) (1::nat)) (nbx * nby)"
  define flatsum where "flatsum = np_bincount binnumbers vs (nbx * nby)"
  define result where
    "result = map (\<lambda>(s, c). if c = 0 then NaN else Val (s / rat_of_nat c)) (zip flatsum flatcount)"
  define stat where
    "stat = map (\<lambda>i. map (\<lambda>j. result ! (i * nby + j)) [1..<nby - 1]) [1..<nbx - 1]"
  have "binned_statistic_2d xs ys vs xedges yedges = Inr stat"
    using lens ok
    by (simp add: binned_statistic_2d_def Let_def stat_def result_def flatsum_def
        flatcount_def binnumbers_def f_def nbx_def nby_def)
  then have same: "stat0 = stat"
    using ran by simp
  have len: "length stat = length xedges - 1"
    by (simp add: stat_def nbx_def)
  have cell: "length (stat ! i) = length yedges - 1 \<and>
      (\<forall>j<length yedges - 1. stat ! i ! j =
          mean_cell (map (\<lambda>(x, y, v). v)
            (filter (\<lambda>(x, y, v). in_bin xedges i x \<and> in_bin yedges j y) (zip xs (zip ys vs)))))"
    if i: "i < length xedges - 1" for i
  proof (intro conjI allI impI)
    show "length (stat ! i) = length yedges - 1"
      using i by (simp add: stat_def nbx_def nby_def)
  next
    fix j assume j: "j < length yedges - 1"
    let ?K = "Suc i * nby + Suc j"
    have K: "?K < nbx * nby"
    proof -
      have "Suc (Suc i) \<le> nbx" using i by (simp add: nbx_def)
      then have "Suc (Suc i) * nby \<le> nbx * nby" by (rule mult_le_mono1)
      moreover have "Suc j < nby" using j by (simp add: nby_def)
      ultimately show ?thesis by simp
    qed
    have at: "stat ! i ! j = result ! ?K"
      using i j by (simp add: stat_def nbx_def nby_def)
    have pred: "f (x, y) = ?K \<longleftrightarrow> in_bin xedges i x \<and> in_bin yedges j y" for x y
    proof -
      have "bin_number yedges y < nby"
        using bin_number_le [of yedges y] by (simp add: nby_def)
      moreover have "Suc j < nby" using j by (simp add: nby_def)
      ultimately have "f (x, y) = ?K \<longleftrightarrow>
          bin_number xedges x = Suc i \<and> bin_number yedges y = Suc j"
        unfolding f_def by (simp only: prod.case flat_index_eq)
      moreover have "bin_number xedges x = Suc i \<longleftrightarrow> in_bin xedges i x"
        using i by (intro bin_number_in_bin [OF incx]) simp
      moreover have "bin_number yedges y = Suc j \<longleftrightarrow> in_bin yedges j y"
        using j by (intro bin_number_in_bin [OF incy]) simp
      ultimately show ?thesis by simp
    qed
    let ?sel = "map (\<lambda>(x, y, v). v)
        (filter (\<lambda>(x, y, v). in_bin xedges i x \<and> in_bin yedges j y) (zip xs (zip ys vs)))"
    have filt: "filter (\<lambda>(x, y, v). f (x, y) = ?K) (zip xs (zip ys vs))
        = filter (\<lambda>(x, y, v). in_bin xedges i x \<and> in_bin yedges j y) (zip xs (zip ys vs))"
      by (simp only: pred)
    have s: "flatsum ! ?K = sum_list ?sel"
      unfolding flatsum_def binnumbers_def
      by (simp only: np_bincount_nth [OF K] selected_weights [OF lens] filt)
    have c: "flatcount ! ?K = length ?sel"
    proof -
      have "flatcount ! ?K = sum_list (map snd (filter (\<lambda>p. fst p = ?K)
          (zip (map f (zip xs ys)) (replicate (length (map f (zip xs ys))) (1::nat)))))"
        unfolding flatcount_def binnumbers_def by (rule np_bincount_nth [OF K])
      also have "\<dots> = length (filter (\<lambda>(x, y, v). f (x, y) = ?K) (zip xs (zip ys vs)))"
        by (rule selected_count [OF lens])
      also have "\<dots> = length ?sel"
        by (simp only: filt length_map)
      finally show ?thesis .
    qed
    have "result ! ?K = (if flatcount ! ?K = 0 then NaN
        else Val (flatsum ! ?K / rat_of_nat (flatcount ! ?K)))"
      using K by (simp add: result_def flatsum_def flatcount_def np_bincount_length)
    then have "result ! ?K = mean_cell ?sel"
      by (simp only: s c mean_cell_of_sum_count)
    then show "stat ! i ! j = mean_cell ?sel"
      using at by simp
  qed
  show ?thesis
    unfolding same using len cell by blast
qed

lemma np_transpose_nth:
  assumes "j < ncols" and "i < length rows"
  shows "length (np_transpose rows ncols) = ncols"
    and "length (np_transpose rows ncols ! j) = length rows"
    and "np_transpose rows ncols ! j ! i = rows ! i ! j"
  using assms by (simp_all add: np_transpose_def)

lemma griddata_nearest_shape:
  assumes "griddata_nearest xs ys vs (fst (np_meshgrid gx gy)) (snd (np_meshgrid gx gy)) = Inr g"
  shows "has_shape g (length gy) (length gx)"
proof -
  have g: "g = map (\<lambda>(rx, ry).
                  map (\<lambda>p. if xs = [] then NaN
                           else Val (vs ! argmin (map (sqdist p) (zip xs ys))))
                      (zip rx ry))
                (zip (replicate (length gy) gx) (map (\<lambda>y. replicate (length gx) y) gy))"
    using assms by (simp add: griddata_nearest_def np_meshgrid_def split: if_splits)
  show ?thesis
    unfolding g by (simp add: has_shape_def list_all_length)
qed

lemma griddata_nearest_Inr:
  assumes "length ys = length xs" and "length vs = length xs"
  shows "\<exists>g. griddata_nearest xs ys vs mx my = Inr g"
  using assms by (simp add: griddata_nearest_def)

subsection \<open>Slices and reductions\<close>



lemma py_slice_nonneg:
  assumes "0 \<le> lo" and "0 \<le> hi"
  shows "py_slice xs lo hi = take (min (nat hi) (length xs) - min (nat lo) (length xs)) (drop (min (nat lo) (length xs)) xs)"
  using assms by (simp add: py_slice_def py_clip_def Let_def)


lemma py_slice_in_range:
  assumes "0 \<le> lo" and "lo \<le> hi" and "hi \<le> int (length xs)"
  shows "length (py_slice xs lo hi) = nat (hi - lo)"
    and "\<And>i. i < nat (hi - lo) \<Longrightarrow> py_slice xs lo hi ! i = xs ! (nat lo + i)"
proof -
  have eq: "py_slice xs lo hi = take (nat (hi - lo)) (drop (nat lo) xs)"
  proof -
    have "nat hi \<le> length xs" and "nat lo \<le> length xs" and "nat hi - nat lo = nat (hi - lo)"
      using assms by linarith+
    then show ?thesis
      using assms by (simp add: py_slice_nonneg min_def)
  qed
  have room: "nat lo + nat (hi - lo) \<le> length xs"
    using assms by linarith
  show "length (py_slice xs lo hi) = nat (hi - lo)"
    using room by (simp add: eq)
  show "py_slice xs lo hi ! i = xs ! (nat lo + i)" if "i < nat (hi - lo)" for i
    using that room by (simp add: eq)
qed

subsection \<open>Sequences of calls\<close>

lemma run_calls_error:
  assumes "fst (run_calls lib cs) = Some e"
  shows "\<exists>c msg. c \<in> set cs \<and> lib c = Some msg \<and> e = LibraryError msg"
  using assms
proof (induction cs)
  case Nil
  then show ?case by simp
next
  case (Cons c cs)
  show ?case
  proof (cases "lib c")
    case None
    then have "fst (run_calls lib cs) = Some e"
      using Cons.prems by (simp split: prod.splits)
    then show ?thesis
      using Cons.IH by auto
  next
    case (Some msg)
    then show ?thesis
      using Cons.prems by auto
  qed
qed

lemma run_calls_accepted:
  assumes "accepts lib cs"
  shows "run_calls lib cs = (None, cs)"
  using assms by (induction cs) (simp_all add: accepts_def)

section \<open>Facts about layer_grid\<close>

lemma draw_grid_frame:
  "snd (draw_grid lib a g s) = s\<lparr>st_drawn := snd (run_calls lib (render a g))\<rparr>"
  by (simp add: draw_grid_def split: prod.splits option.splits)

lemma draw_grid_error:
  assumes "fst (draw_grid lib a g s) = Inl e"
  shows "\<exists>msg. e = LibraryError msg"
proof -
  have "fst (run_calls lib (render a g)) = Some e"
    using assms by (simp add: draw_grid_def split: prod.splits option.splits)
  then show ?thesis
    using run_calls_error by blast
qed

lemma build_and_draw_accepted:
  assumes "accepts lib (array_calls a d)"
  shows "build_and_draw lib a d s =
     (let gx = np_arange (extent a ! 0) (extent a ! 1) d;
          gy = np_arange (extent a ! 2) (extent a ! 3) d;
          s4 = s\<lparr>st_delta := Some d, st_grid_lons := Some gx, st_grid_lats := Some gy,
                 st_grid_lon := Some (fst (np_meshgrid gx gy)),
                 st_grid_lat := Some (snd (np_meshgrid gx gy))\<rparr>
      in case compute_grid a gx gy (fst (np_meshgrid gx gy)) (snd (np_meshgrid gx gy)) of
           Inl e \<Rightarrow> (Inl e, s4)
         | Inr g \<Rightarrow> draw_grid lib a g (s4\<lparr>st_grid := Some g\<rparr>))"
  using assms
  by (simp add: build_and_draw_def array_calls_def accepts_def Let_def np_meshgrid_def)

lemma build_and_draw_refused:
  assumes "\<not> accepts lib (array_calls a d)"
  shows "\<exists>msg s'. build_and_draw lib a d s = (Inl (LibraryError msg), s')
           \<and> st_grid s' = st_grid s \<and> st_drawn s' = st_drawn s
           \<and> st_grid_lon s' = st_grid_lon s \<and> st_grid_lat s' = st_grid_lat s"
  using assms
  by (auto simp add: build_and_draw_def array_calls_def accepts_def Let_def
      split: option.splits)

lemma build_and_draw_fixed:
  "st_fig (snd (build_and_draw lib a d s)) = st_fig s"
  "st_stderr (snd (build_and_draw lib a d s)) = st_stderr s"
  "st_delta (snd (build_and_draw lib a d s)) = Some d"
  by (simp_all add: build_and_draw_def Let_def np_meshgrid_def draw_grid_frame
      split: option.splits sum.splits)

lemma compute_grid_ValueError:
  assumes "compute_grid a gx gy mx my = Inl (ValueError msg nums)"
  shows "method_in a \<noteq> ''nearest'' \<and> method_in a \<noteq> ''mean''"
  using assms
  by (auto simp add: compute_grid_def griddata_nearest_def binned_statistic_2d_def Let_def
      split: sum.splits if_splits)

lemma build_and_draw_ValueError:
  assumes "fst (build_and_draw lib a d s) = Inl (ValueError msg nums)"
  shows "accepts lib (array_calls a d)"
    and "method_in a \<noteq> ''nearest'' \<and> method_in a \<noteq> ''mean''"
proof -
  show acc: "accepts lib (array_calls a d)"
    using assms build_and_draw_refused [of lib a d s] by (cases "accepts lib (array_calls a d)") auto
  show "method_in a \<noteq> ''nearest'' \<and> method_in a \<noteq> ''mean''"
    using assms compute_grid_ValueError draw_grid_error
    unfolding build_and_draw_accepted [OF acc]
    by (fastforce simp add: Let_def split: sum.splits)
qed

lemma build_and_draw_unsupported:
  assumes "accepts lib (array_calls a d)"
    and "method_in a \<noteq> ''nearest''" and "method_in a \<noteq> ''mean''"
  shows "build_and_draw lib a d s =
     (Inl (ValueError (''unsupported method '' @ [CHR 0x27] @ method_in a @ [CHR 0x27]) []),
      s\<lparr>st_delta := Some d,
        st_grid_lons := Some (np_arange (extent a ! 0) (extent a ! 1) d),
        st_grid_lats := Some (np_arange (extent a ! 2) (extent a ! 3) d),
        st_grid_lon := Some (fst (np_meshgrid (np_arange (extent a ! 0) (extent a ! 1) d)
                                    (np_arange (extent a ! 2) (extent a ! 3) d))),
        st_grid_lat := Some (snd (np_meshgrid (np_arange (extent a ! 0) (extent a ! 1) d)
                                    (np_arange (extent a ! 2) (extent a ! 3) d)))\<rparr>)"
  using assms(2,3)
  by (simp add: build_and_draw_accepted [OF assms(1)] compute_grid_def Let_def)

lemma build_and_draw_lines:
  assumes "accepts lib (array_calls a d)"
  shows "st_grid_lons (snd (build_and_draw lib a d s))
           = Some (np_arange (extent a ! 0) (extent a ! 1) d)"
    and "st_grid_lats (snd (build_and_draw lib a d s))
           = Some (np_arange (extent a ! 2) (extent a ! 3) d)"
  by (simp_all add: build_and_draw_accepted [OF assms] Let_def draw_grid_frame
      split: sum.splits)

lemma build_and_draw_grid:
  assumes "accepts lib (array_calls a d)"
  shows "st_grid (snd (build_and_draw lib a d s)) =
     (case compute_grid a (np_arange (extent a ! 0) (extent a ! 1) d)
             (np_arange (extent a ! 2) (extent a ! 3) d)
             (fst (np_meshgrid (np_arange (extent a ! 0) (extent a ! 1) d)
                    (np_arange (extent a ! 2) (extent a ! 3) d)))
             (snd (np_meshgrid (np_arange (extent a ! 0) (extent a ! 1) d)
                    (np_arange (extent a ! 2) (extent a ! 3) d))) of
        Inl e \<Rightarrow> st_grid s
      | Inr g \<Rightarrow> Some g)"
  by (simp add: build_and_draw_accepted [OF assms] Let_def draw_grid_frame split: sum.splits)

lemma build_and_draw_grid_produced:
  assumes "st_grid s = None" and "st_grid (snd (build_and_draw lib a d s)) = Some g"
  shows "accepts lib (array_calls a d)"
  using assms build_and_draw_refused [of lib a d s]
  by (cases "accepts lib (array_calls a d)") auto

lemma layer_grid_runs:
  assumes "CARTOPY_INSTALLED m" and "lib (Plt_subplots (subplots_kwargs a)) = None"
    and "length (extent a) = 4"
    and "extent a ! 0 < extent a ! 1" and "extent a ! 2 < extent a ! 3"
    and "delta a = Some d" and "0 < d"
  shows "layer_grid lib m a =
     build_and_draw lib a d (frame0\<lparr>st_fig := Some (subplots_kwargs a)\<rparr>)"
  using assms by (simp add: layer_grid_def Let_def)

lemma layer_grid_grid_produced:
  assumes "st_grid (snd (layer_grid lib m a)) = Some g"
  shows "\<exists>d. 0 < d \<and> (delta a = None \<or> delta a = Some d)
     \<and> layer_grid lib m a = build_and_draw lib a d (frame0\<lparr>st_fig := Some (subplots_kwargs a)\<rparr>)"
proof -
  have inst: "CARTOPY_INSTALLED m" and sub: "lib (Plt_subplots (subplots_kwargs a)) = None"
    and len: "length (extent a) = 4"
    and lon: "extent a ! 0 < extent a ! 1" and lat: "extent a ! 2 < extent a ! 3"
    using assms
    by (auto simp add: layer_grid_def Let_def frame0_def split: if_splits option.splits)
  show ?thesis
  proof (cases "delta a")
    case None
    let ?d = "max (extent a ! 1 - extent a ! 0) (extent a ! 3 - extent a ! 2) / 200"
    have "0 < ?d" using lon lat by simp
    moreover have "layer_grid lib m a =
        build_and_draw lib a ?d (frame0\<lparr>st_fig := Some (subplots_kwargs a)\<rparr>)"
      using inst sub len lon lat None by (simp add: layer_grid_def Let_def)
    ultimately show ?thesis using None by blast
  next
    case (Some d)
    have "0 < d"
      using assms inst sub len lon lat Some
      by (auto simp add: layer_grid_def Let_def frame0_def split: if_splits)
    then show ?thesis
      using layer_grid_runs [where lib = lib, OF inst sub len lon lat Some] Some by blast
  qed
qed

lemma compute_grid_mean:
  assumes meth: "method_in a = ''mean''"
    and run: "compute_grid a gx gy mx my = Inr g"
    and incx: "increasing gx" and incy: "increasing gy"
  shows "length g = length gy - 1"
    and "\<And>r. r < length g \<Longrightarrow> length (g ! r) = length gx - 1"
    and "\<And>r c. r < length g \<Longrightarrow> c < length gx - 1 \<Longrightarrow>
           g ! r ! c = mean_cell (samples_in a gx gy c (length g - 1 - r))"
proof -
  obtain stat where bs: "binned_statistic_2d (lon a) (lat a) (values_in a) gx gy = Inr stat"
    and g: "g = np_flip0 (np_transpose stat (length gy - 1))"
    using meth run by (auto simp add: compute_grid_def split: sum.splits)
  from binned_statistic_2d_cells [OF bs incx incy]
  have len: "length stat = length gx - 1"
    and cells: "\<And>i. i < length gx - 1 \<Longrightarrow> length (stat ! i) = length gy - 1
      \<and> (\<forall>j<length gy - 1. stat ! i ! j =
            mean_cell (map (\<lambda>(x, y, v). v)
              (filter (\<lambda>(x, y, v). in_bin gx i x \<and> in_bin gy j y)
                 (zip (lon a) (zip (lat a) (values_in a))))))"
    by auto
  show lg: "length g = length gy - 1"
    by (simp add: g np_flip0_def np_transpose_def)
  show "length (g ! r) = length gx - 1" if "r < length g" for r
    using that lg len by (simp add: g np_flip0_def rev_nth np_transpose_def)
  show "g ! r ! c = mean_cell (samples_in a gx gy c (length g - 1 - r))"
    if r: "r < length g" and c: "c < length gx - 1" for r c
  proof -
    let ?j = "length g - 1 - r"
    have j: "?j < length gy - 1" using r lg by simp
    have "g ! r = np_transpose stat (length gy - 1) ! ?j"
      using r lg by (simp add: g np_flip0_def rev_nth np_transpose_def)
    then have "g ! r ! c = stat ! c ! ?j"
      using np_transpose_nth(3) [of ?j "length gy - 1" c stat] j c len by simp
    then show ?thesis
      using cells [OF c] j by (simp add: samples_in_def)
  qed
qed

section \<open>Facts about spectral_heterogeneity\<close>

lemma sh_logged_eq:
  "sh_logged (snd (spectral_heterogeneity lib m a)) =
     Some (map (map np_log) (py_slice2 (indat a) (lyrmin a) (lyrmax a) (lmin a) (lmax a + 1)))"
  by (simp add: spectral_heterogeneity_def Let_def sh_frame0_def
      split: option.splits sum.splits prod.splits)




lemma sh_accepted:
  assumes "sh_logged (snd (spectral_heterogeneity lib m a)) = Some L"
    and "np_min L = Inr lo" and "np_max L = Inr hi"
    and "accepts lib (sh_calls a L lo hi)"
  shows "spectral_heterogeneity lib m a =
     (Inr (sh_subplots_kwargs a,
           sh_render a (py_slice (depths a) (lyrmin a) (lyrmax a)) L lo hi),
      \<lparr>sh_logged = Some L,
       sh_deps = Some (py_slice (depths a) (lyrmin a) (lyrmax a)),
       sh_fig = Some (sh_subplots_kwargs a),
       sh_drawn = sh_render a (py_slice (depths a) (lyrmin a) (lyrmax a)) L lo hi\<rparr>)"
proof -
  have L: "L = map (map np_log) (py_slice2 (indat a) (lyrmin a) (lyrmax a) (lmin a) (lmax a + 1))"
    using assms(1) unfolding sh_logged_eq by simp
  have sub: "lib (Sh_subplots (sh_subplots_kwargs a)) = None"
    and ar: "lib (Np_arange (rat_of_int (lmin a)) (rat_of_int (lmax a + 1)) 1) = None"
    and rest: "accepts lib (sh_render a (py_slice (depths a) (lyrmin a) (lyrmax a)) L lo hi)"
    using assms(4) by (simp_all add: sh_calls_def accepts_def)
  show ?thesis
    using sub ar run_calls_accepted [OF rest] assms(2,3) unfolding L
    by (simp add: spectral_heterogeneity_def Let_def sh_frame0_def)
qed

section \<open>The example calls\<close>

lemma cartopy_present_installed: "CARTOPY_INSTALLED cartopy_present"
  by (simp add: cartopy_present_def load_module_def)

lemma example_call_simps:
  "extent example_call = [- 180, 180, - 90, 90]" "delta example_call = Some 90"
  "method_in example_call = ''nearest''" "lon example_call = [0, 100]" "lat example_call = [0, - 45]"
  "values_in example_call = [1, 3]" "subplots_kwargs example_call = []"
  by (simp_all add: example_call_def)

lemma mean_call_simps:
  "extent mean_call = [- 180, 180, - 90, 90]" "delta mean_call = Some 90"
  "method_in mean_call = ''mean''" "lon mean_call = [0, 100]" "lat mean_call = [0, - 45]"
  "values_in mean_call = [1, 3]" "subplots_kwargs mean_call = []"
  by (simp_all add: mean_call_def example_call_def)

section \<open>The shape of the grid\<close>

text \<open>
  With the nearest-neighbour method the grid has one row for every latitude line and one
  column for every longitude line.
\<close>

lemma nearest_grid_shape:
  assumes "CARTOPY_INSTALLED m"
    and "lib (Plt_subplots (subplots_kwargs a)) = None"
    and "accepts lib (array_calls a d)"
    and "extent a = [minlon, maxlon, minlat, maxlat]"
    and "minlon < maxlon" and "minlat < maxlat"
    and "delta a = Some d" and "0 < d"
    and "method_in a = ''nearest''"
    and "length (lat a) = length (lon a)" and "length (values_in a) = length (lon a)"
  shows "\<exists>g. st_grid (snd (layer_grid lib m a)) = Some g
           \<and> has_shape g (nat \<lceil>(maxlat - minlat) / d\<rceil>) (nat \<lceil>(maxlon - minlon) / d\<rceil>)"
proof -
  let ?gx = "np_arange (extent a ! 0) (extent a ! 1) d"
  let ?gy = "np_arange (extent a ! 2) (extent a ! 3) d"
  have run: "layer_grid lib m a =
      build_and_draw lib a d (frame0\<lparr>st_fig := Some (subplots_kwargs a)\<rparr>)"
    using assms(1,2,4-8) by (intro layer_grid_runs) simp_all
  obtain g0 where g0: "griddata_nearest (lon a) (lat a) (values_in a)
      (fst (np_meshgrid ?gx ?gy)) (snd (np_meshgrid ?gx ?gy)) = Inr g0"
    using griddata_nearest_Inr [OF assms(10,11)] by blast
  have shape0: "has_shape g0 (length ?gy) (length ?gx)"
    using griddata_nearest_shape [OF g0] .
  have "st_grid (snd (layer_grid lib m a)) = Some (np_flip0 g0)"
    using g0 assms(9) by (simp add: run build_and_draw_grid [OF assms(3)] compute_grid_def)
  moreover have "has_shape (np_flip0 g0) (length ?gy) (length ?gx)"
    using shape0 by (simp add: has_shape_def np_flip0_def list_all_iff)
  ultimately show ?thesis
    using assms(4) by (simp add: length_np_arange)
qed

text \<open>
  With the mean method the grid lines are the edges of the bins, so a grid that is
  produced has one row and one column less than there are lines.
\<close>

lemma mean_grid_shape:
  assumes "extent a = [minlon, maxlon, minlat, maxlat]"
    and "delta a = Some d"
    and "method_in a = ''mean''"
    and "st_grid (snd (layer_grid lib m a)) = Some g"
  shows "has_shape g (nat \<lceil>(maxlat - minlat) / d\<rceil> - 1) (nat \<lceil>(maxlon - minlon) / d\<rceil> - 1)"
proof -
  let ?s1 = "frame0\<lparr>st_fig := Some (subplots_kwargs a)\<rparr>"
  obtain d' where d': "0 < d'" and dd: "delta a = None \<or> delta a = Some d'"
    and run: "layer_grid lib m a = build_and_draw lib a d' ?s1"
    using layer_grid_grid_produced [OF assms(4)] by blast
  have dd: "d' = d" using dd assms(2) by simp
  let ?gx = "np_arange (extent a ! 0) (extent a ! 1) d"
  let ?gy = "np_arange (extent a ! 2) (extent a ! 3) d"
  have acc: "accepts lib (array_calls a d)"
    using assms(4) run unfolding dd
    by (intro build_and_draw_grid_produced [of ?s1 lib a d g]) (simp_all add: frame0_def)
  have cg: "compute_grid a ?gx ?gy (fst (np_meshgrid ?gx ?gy)) (snd (np_meshgrid ?gx ?gy)) = Inr g"
    using assms(4) run unfolding dd
    by (simp add: build_and_draw_grid [OF acc] frame0_def split: sum.splits)
  have inc: "increasing ?gx" "increasing ?gy"
    using d' dd by (simp_all add: np_arange_is_increasing)
  note facts = compute_grid_mean [OF assms(3) cg inc]
  have "has_shape g (length ?gy - 1) (length ?gx - 1)"
    using facts(1,2) by (simp add: has_shape_def list_all_length)
  then show ?thesis
    using assms(1) by (simp add: length_np_arange)
qed

text \<open>
  C1: the grid has shape (ceil((maxlat - minlat) / delta), ceil((maxlon - minlon) / delta))
  for both methods. On the default extent with \<open>delta = 90\<close> that is (2, 4), and
  \<open>nearest_grid_shape\<close> gives it for the nearest-neighbour method. With
  \<open>method="mean"\<close> the same call makes a grid of shape (1, 3), whenever the figure, the
  grid lines and the mesh can be made: the last latitude line and the last longitude
  line are upper edges of bins and get no cell of their own.
\<close>

theorem mean_grid_one_short:
  assumes "lib (Plt_subplots []) = None"
    and "accepts lib (array_calls mean_call 90)"
  shows "st_grid (snd (layer_grid lib cartopy_present mean_call)) = Some [[NaN, NaN, Val 1]]
   \<and> has_shape [[NaN, NaN, Val 1]] 1 3
   \<and> nat \<lceil>(90 - (- 90)) / (90::rat)\<rceil> = 2
   \<and> nat \<lceil>(180 - (- 180)) / (90::rat)\<rceil> = 4"
proof -
  let ?gx = "np_arange (extent mean_call ! 0) (extent mean_call ! 1) 90"
  let ?gy = "np_arange (extent mean_call ! 2) (extent mean_call ! 3) 90"
  have run: "layer_grid lib cartopy_present mean_call =
      build_and_draw lib mean_call 90 (frame0\<lparr>st_fig := Some (subplots_kwargs mean_call)\<rparr>)"
    using assms(1) cartopy_present_installed
    by (intro layer_grid_runs) (simp_all add: mean_call_simps)
  have cg: "compute_grid mean_call ?gx ?gy (fst (np_meshgrid ?gx ?gy)) (snd (np_meshgrid ?gx ?gy))
      = Inr [[NaN, NaN, Val 1]]"
    by code_simp
  have "st_grid (snd (layer_grid lib cartopy_present mean_call)) = Some [[NaN, NaN, Val 1]]"
    unfolding run build_and_draw_grid [OF assms(2)] cg by simp
  then show ?thesis
    by (simp add: has_shape_def)
qed

theorem mean_grid_one_short_witness:
  "strict_library (Plt_subplots []) = None
   \<and> accepts strict_library (array_calls mean_call 90)
   \<and> st_grid (snd (layer_grid strict_library cartopy_present mean_call))
       = Some [[NaN, NaN, Val 1]]
   \<and> has_shape [[NaN, NaN, Val 1]] 1 3"
proof -
  have h1: "strict_library (Plt_subplots []) = None"
    by code_simp
  have h2: "accepts strict_library (array_calls mean_call 90)"
    by code_simp
  show ?thesis
    using h1 h2 mean_grid_one_short [OF h1 h2] by simp
qed

section \<open>The example of the default extent\<close>

text \<open>
  C2: for \<open>extent = (-180, 180, -90, 90)\<close> and \<open>delta = 90\<close>, when the figure, the grid
  lines and the mesh can be made, the longitude lines are \<open>[-180, -90, 0, 90]\<close> and the
  latitude lines are \<open>[-90, 0]\<close>: the range is half-open and leaves 90 out. With the
  default method, on a non-empty sample set of three equal lengths, the grid has shape
  (2, 4).
\<close>

theorem example_grid_lines:
  assumes "CARTOPY_INSTALLED m"
    and "extent a = [- 180, 180, - 90, 90]"
    and "delta a = Some 90"
    and "lib (Plt_subplots (subplots_kwargs a)) = None"
    and "accepts lib (array_calls a 90)"
  shows "st_grid_lons (snd (layer_grid lib m a)) = Some [- 180, - 90, 0, 90]
     \<and> st_grid_lats (snd (layer_grid lib m a)) = Some [- 90, 0]
     \<and> (method_in a = ''nearest'' \<and> length (lat a) = length (lon a)
          \<and> length (values_in a) = length (lon a) \<and> lon a \<noteq> []
        \<longrightarrow> (\<exists>g. st_grid (snd (layer_grid lib m a)) = Some g \<and> has_shape g 2 4))"
proof -
  have run: "layer_grid lib m a =
      build_and_draw lib a 90 (frame0\<lparr>st_fig := Some (subplots_kwargs a)\<rparr>)"
    using assms(1-4) by (intro layer_grid_runs) simp_all
  have lons: "np_arange (- 180) 180 90 = [- 180, - 90, 0, 90]"
    by (simp add: np_arange_def upt_conv_Cons)
  have lats: "np_arange (- 90) 90 90 = [- 90, 0]"
    by (simp add: np_arange_def upt_conv_Cons)
  have lines: "st_grid_lons (snd (layer_grid lib m a)) = Some [- 180, - 90, 0, 90]"
      "st_grid_lats (snd (layer_grid lib m a)) = Some [- 90, 0]"
    using assms(2) lons lats by (simp_all add: run build_and_draw_lines [OF assms(5)])
  have shape: "\<exists>g. st_grid (snd (layer_grid lib m a)) = Some g \<and> has_shape g 2 4"
    if "method_in a = ''nearest''" and "length (lat a) = length (lon a)"
      and "length (values_in a) = length (lon a)"
    using nearest_grid_shape [where lib = lib, OF assms(1,4,5,2) _ _ assms(3) _ that] by simp
  show ?thesis
    using lines shape by blast
qed

theorem example_grid_lines_witness:
  "CARTOPY_INSTALLED cartopy_present
   \<and> extent example_call = [- 180, 180, - 90, 90]
   \<and> delta example_call = Some 90
   \<and> strict_library (Plt_subplots (subplots_kwargs example_call)) = None
   \<and> accepts strict_library (array_calls example_call 90)
   \<and> st_grid_lons (snd (layer_grid strict_library cartopy_present example_call))
       = Some [- 180, - 90, 0, 90]
   \<and> st_grid_lats (snd (layer_grid strict_library cartopy_present example_call))
       = Some [- 90, 0]
   \<and> (\<exists>g. st_grid (snd (layer_grid strict_library cartopy_present example_call)) = Some g
          \<and> has_shape g 2 4)"
proof -
  have h1: "CARTOPY_INSTALLED cartopy_present"
    by (rule cartopy_present_installed)
  have h2: "extent example_call = [- 180, 180, - 90, 90]"
    and h3: "delta example_call = Some 90"
    by (simp_all add: example_call_simps)
  have h4: "strict_library (Plt_subplots (subplots_kwargs example_call)) = None"
    by code_simp
  have h5: "accepts strict_library (array_calls example_call 90)"
    by code_simp
  show ?thesis
    using h1 h2 h3 h4 h5 example_grid_lines [where lib = strict_library, OF h1 h2 h3 h4 h5]
    by (simp add: example_call_simps)
qed

text \<open>
  The latitude lines of the example are not \<open>[-90, 0, 90]\<close> and the grid of the example
  call has two rows, not three.
\<close>

theorem example_latitude_stops_before_90:
  "st_grid_lats (snd (layer_grid strict_library cartopy_present example_call)) = Some [- 90, 0]
   \<and> st_grid (snd (layer_grid strict_library cartopy_present example_call))
       = Some [[Val 1, Val 1, Val 1, Val 3], [Val 1, Val 1, Val 1, Val 3]]
   \<and> \<not> has_shape [[Val 1, Val 1, Val 1, Val 3], [Val 1, Val 1, Val 1, Val 3]] 3 4"
proof -
  have "st_grid_lats (snd (layer_grid strict_library cartopy_present example_call))
      = Some [- 90, 0]"
    by code_simp
  moreover have "st_grid (snd (layer_grid strict_library cartopy_present example_call))
       = Some [[Val 1, Val 1, Val 1, Val 3], [Val 1, Val 1, Val 1, Val 3]]"
    by code_simp
  ultimately show ?thesis
    by (simp add: has_shape_def)
qed

section \<open>Validation errors and what has happened by then\<close>

text \<open>
  C3: when \<open>layer_grid\<close> raises one of its validation errors, no grid value has been
  computed, nothing has been drawn and nothing has been written to standard error. The
  figure and axes have been made by then. The errors about the extent and the spacing
  are raised before any grid coordinate is computed; the error about the method is
  raised after the grid lines and the mesh are computed.
\<close>

theorem validation_error_frame:
  assumes "fst (layer_grid lib (load_module imp) a) = Inl e"
    and "e \<in> set (validation_errors a)"
  shows "(let s = snd (layer_grid lib (load_module imp) a);
              unsupported =
                ValueError (''unsupported method '' @ [CHR 0x27] @ method_in a @ [CHR 0x27]) []
          in st_fig s = Some (subplots_kwargs a) \<and> st_stderr s = []
             \<and> st_grid s = None \<and> st_drawn s = []
             \<and> (e \<noteq> unsupported \<longrightarrow>
                  st_grid_lons s = None \<and> st_grid_lats s = None
                  \<and> st_grid_lon s = None \<and> st_grid_lat s = None)
             \<and> (e = unsupported \<longrightarrow>
                  st_grid_lons s \<noteq> None \<and> st_grid_lats s \<noteq> None
                  \<and> st_grid_lon s \<noteq> None \<and> st_grid_lat s \<noteq> None))"
proof -
  let ?s1 = "frame0\<lparr>st_fig := Some (subplots_kwargs a)\<rparr>"
  let ?U = "ValueError (''unsupported method '' @ [CHR 0x27] @ method_in a @ [CHR 0x27]) []"
  obtain msg nums where e: "e = ValueError msg nums"
    using assms(2) by (auto simp add: validation_errors_def)
  have inst: "CARTOPY_INSTALLED (load_module imp)"
    using assms(1) e by (cases imp) (auto simp add: layer_grid_def load_module_def)
  have sub: "lib (Plt_subplots (subplots_kwargs a)) = None"
    using assms(1) e inst
    by (cases "lib (Plt_subplots (subplots_kwargs a))") (auto simp add: layer_grid_def)
  show ?thesis
  proof (cases "\<exists>d. layer_grid lib (load_module imp) a = build_and_draw lib a d ?s1")
    case True
    then obtain d where run: "layer_grid lib (load_module imp) a = build_and_draw lib a d ?s1" ..
    have err: "fst (build_and_draw lib a d ?s1) = Inl (ValueError msg nums)"
      using assms(1) run e by simp
    note facts = build_and_draw_ValueError [OF err]
    have whole: "build_and_draw lib a d ?s1 =
        (Inl ?U,
         ?s1\<lparr>st_delta := Some d,
           st_grid_lons := Some (np_arange (extent a ! 0) (extent a ! 1) d),
           st_grid_lats := Some (np_arange (extent a ! 2) (extent a ! 3) d),
           st_grid_lon := Some (fst (np_meshgrid (np_arange (extent a ! 0) (extent a ! 1) d)
                                       (np_arange (extent a ! 2) (extent a ! 3) d))),
           st_grid_lat := Some (snd (np_meshgrid (np_arange (extent a ! 0) (extent a ! 1) d)
                                       (np_arange (extent a ! 2) (extent a ! 3) d)))\<rparr>)"
      using facts by (intro build_and_draw_unsupported) simp_all
    have "e = ?U"
      using assms(1) unfolding run whole by simp
    then show ?thesis
      unfolding run whole by (simp add: Let_def frame0_def)
  next
    case False
    then have early: "layer_grid lib (load_module imp) a = (Inl e, ?s1)" and "e \<noteq> ?U"
      using assms(1) inst sub
      by (auto simp add: layer_grid_def Let_def split: if_splits option.splits)
    then show ?thesis
      by (simp add: Let_def frame0_def)
  qed
qed

theorem validation_error_frame_witness:
  "fst (layer_grid strict_library (load_module None) (example_call\<lparr>delta := Some 0\<rparr>))
     = Inl (ValueError ''delta must be more than 0'' [])
   \<and> ValueError ''delta must be more than 0'' []
       \<in> set (validation_errors (example_call\<lparr>delta := Some 0\<rparr>))
   \<and> st_fig (snd (layer_grid strict_library (load_module None)
                    (example_call\<lparr>delta := Some 0\<rparr>))) = Some []
   \<and> st_grid_lons (snd (layer_grid strict_library (load_module None)
                          (example_call\<lparr>delta := Some 0\<rparr>))) = None
   \<and> st_grid (snd (layer_grid strict_library (load_module None)
                     (example_call\<lparr>delta := Some 0\<rparr>))) = None"
proof -
  let ?a = "example_call\<lparr>delta := Some 0\<rparr>"
  have h1: "fst (layer_grid strict_library (load_module None) ?a)
      = Inl (ValueError ''delta must be more than 0'' [])"
    by code_simp
  have h2: "ValueError ''delta must be more than 0'' [] \<in> set (validation_errors ?a)"
    by (simp add: validation_errors_def)
  show ?thesis
    using h1 h2 validation_error_frame [OF h1 h2] by (simp add: Let_def example_call_simps)
qed

text \<open>
  A figure exists when the extent is refused, and the longitude lines exist when the
  method is refused.
\<close>

theorem figure_made_before_validation:
  "fst (layer_grid strict_library cartopy_present (example_call\<lparr>extent := [0, 1, 2]\<rparr>))
     = Inl (ValueError ''extent must contain four values'' [])
   \<and> st_fig (snd (layer_grid strict_library cartopy_present
                    (example_call\<lparr>extent := [0, 1, 2]\<rparr>))) = Some []
   \<and> fst (layer_grid strict_library cartopy_present (example_call\<lparr>method_in := ''cubic''\<rparr>))
     = Inl (ValueError (''unsupported method '' @ [CHR 0x27] @ ''cubic'' @ [CHR 0x27]) [])
   \<and> st_grid_lons (snd (layer_grid strict_library cartopy_present
                          (example_call\<lparr>method_in := ''cubic''\<rparr>)))
     = Some [- 180, - 90, 0, 90]"
proof -
  have "fst (layer_grid strict_library cartopy_present (example_call\<lparr>extent := [0, 1, 2]\<rparr>))
     = Inl (ValueError ''extent must contain four values'' [])"
    by code_simp
  moreover have "st_fig (snd (layer_grid strict_library cartopy_present
                    (example_call\<lparr>extent := [0, 1, 2]\<rparr>))) = Some []"
    by code_simp
  moreover have "fst (layer_grid strict_library cartopy_present
                    (example_call\<lparr>method_in := ''cubic''\<rparr>))
     = Inl (ValueError (''unsupported method '' @ [CHR 0x27] @ ''cubic'' @ [CHR 0x27]) [])"
    by code_simp
  moreover have "st_grid_lons (snd (layer_grid strict_library cartopy_present
                          (example_call\<lparr>method_in := ''cubic''\<rparr>)))
     = Some [- 180, - 90, 0, 90]"
    by code_simp
  ultimately show ?thesis
    by (intro conjI)
qed

section \<open>The values of the mean grid\<close>

text \<open>
  C4: with \<open>method="mean"\<close>, the cell in row \<open>r\<close> and column \<open>c\<close> of the grid is the mean of
  the values of the samples whose longitude is in bin \<open>c\<close> of the longitude lines and whose
  latitude is in bin \<open>length g - 1 - r\<close> of the latitude lines (row 0 is the north): the
  value itself when there is one such sample, the sum over the count when there are some,
  NaN when there is none. The bins are those of \<open>binned_statistic_2d\<close>: a sample just above
  the last line of an axis, equal to it after rounding, is in the last bin.
\<close>

theorem mean_cell_values:
  assumes "method_in a = ''mean''"
    and "st_grid (snd (layer_grid lib m a)) = Some g"
    and "st_grid_lons (snd (layer_grid lib m a)) = Some gx"
    and "st_grid_lats (snd (layer_grid lib m a)) = Some gy"
    and "r < length g" and "c < length (g ! r)"
  shows "g ! r ! c = mean_cell (samples_in a gx gy c (length g - 1 - r))
     \<and> (\<forall>v. samples_in a gx gy c (length g - 1 - r) = [v] \<longrightarrow> g ! r ! c = Val v)
     \<and> (samples_in a gx gy c (length g - 1 - r) = [] \<longrightarrow> g ! r ! c = NaN)
     \<and> (samples_in a gx gy c (length g - 1 - r) \<noteq> [] \<longrightarrow>
          g ! r ! c = Val (sum_list (samples_in a gx gy c (length g - 1 - r))
                           / rat_of_nat (length (samples_in a gx gy c (length g - 1 - r)))))"
proof -
  let ?s1 = "frame0\<lparr>st_fig := Some (subplots_kwargs a)\<rparr>"
  obtain d where d: "0 < d" and run: "layer_grid lib m a = build_and_draw lib a d ?s1"
    using layer_grid_grid_produced [OF assms(2)] by blast
  let ?gx = "np_arange (extent a ! 0) (extent a ! 1) d"
  let ?gy = "np_arange (extent a ! 2) (extent a ! 3) d"
  have acc: "accepts lib (array_calls a d)"
    using assms(2) run
    by (intro build_and_draw_grid_produced [of ?s1 lib a d g]) (simp_all add: frame0_def)
  have gx: "gx = ?gx" and gy: "gy = ?gy"
    using assms(3,4) run by (simp_all add: build_and_draw_lines [OF acc])
  have cg: "compute_grid a gx gy (fst (np_meshgrid gx gy)) (snd (np_meshgrid gx gy)) = Inr g"
    using assms(2) run unfolding gx gy
    by (simp add: build_and_draw_grid [OF acc] frame0_def split: sum.splits)
  have incx: "increasing gx" and incy: "increasing gy"
    using d by (simp_all add: gx gy np_arange_is_increasing)
  note facts = compute_grid_mean [OF assms(1) cg incx incy]
  have c: "c < length gx - 1" using assms(5,6) facts(2) by simp
  have main: "g ! r ! c = mean_cell (samples_in a gx gy c (length g - 1 - r))"
    using facts(3) [OF assms(5) c] .
  show ?thesis
    unfolding main by (simp add: mean_cell_def)
qed

text \<open>
  In the grid of \<open>binned_call\<close> the north-east cell holds the sample that lies a millionth
  of a degree east of the last longitude line.
\<close>

theorem mean_cell_values_witness:
  "method_in binned_call = ''mean''
   \<and> st_grid (snd (layer_grid strict_library cartopy_present binned_call))
       = Some [[NaN, NaN, NaN, NaN, Val 3], [NaN, NaN, NaN, Val (5 / 2), NaN]]
   \<and> st_grid_lons (snd (layer_grid strict_library cartopy_present binned_call))
       = Some [- 180, - 120, - 60, 0, 60, 120]
   \<and> st_grid_lats (snd (layer_grid strict_library cartopy_present binned_call))
       = Some [- 90, - 30, 30]
   \<and> samples_in binned_call [- 180, - 120, - 60, 0, 60, 120] [- 90, - 30, 30] 4 1 = [3]
   \<and> samples_in binned_call [- 180, - 120, - 60, 0, 60, 120] [- 90, - 30, 30] 3 0 = [1, 4]
   \<and> [[NaN, NaN, NaN, NaN, Val 3], [NaN, NaN, NaN, Val (5 / 2), NaN]] ! 0 ! 4 = mean_cell [3]
   \<and> [[NaN, NaN, NaN, NaN, Val 3], [NaN, NaN, NaN, Val (5 / 2), NaN]] ! 1 ! 3 = mean_cell [1, 4]"
proof -
  let ?g = "[[NaN, NaN, NaN, NaN, Val 3], [NaN, NaN, NaN, Val (5 / 2), NaN]]"
  have h1: "method_in binned_call = ''mean''"
    by (simp add: binned_call_def)
  have h2: "st_grid (snd (layer_grid strict_library cartopy_present binned_call)) = Some ?g"
    by code_simp
  have h3: "st_grid_lons (snd (layer_grid strict_library cartopy_present binned_call))
      = Some [- 180, - 120, - 60, 0, 60, 120]"
    by code_simp
  have h4: "st_grid_lats (snd (layer_grid strict_library cartopy_present binned_call))
      = Some [- 90, - 30, 30]"
    by code_simp
  have r0: "(0::nat) < length ?g" and c4: "4 < length (?g ! 0)"
    and r1: "(1::nat) < length ?g" and c3: "3 < length (?g ! 1)"
    by simp_all
  have s1: "samples_in binned_call [- 180, - 120, - 60, 0, 60, 120] [- 90, - 30, 30] 4 1 = [3]"
    by code_simp
  have s2: "samples_in binned_call [- 180, - 120, - 60, 0, 60, 120] [- 90, - 30, 30] 3 0 = [1, 4]"
    by code_simp
  show ?thesis
    using h1 h2 h3 h4 s1 s2 mean_cell_values [OF h1 h2 h3 h4 r0 c4]
      mean_cell_values [OF h1 h2 h3 h4 r1 c3]
    by (simp add: mean_cell_def)
qed

section \<open>The slice of the spectrum\<close>

text \<open>
  C5: \<open>spectral_heterogeneity\<close> takes the rows \<open>lyrmin\<close> up to but not including \<open>lyrmax\<close>
  and the columns \<open>lmin\<close> up to and including \<open>lmax\<close> of the spectrum, and then the
  logarithm of each entry: for bounds inside the array, entry \<open>(i, j)\<close> of \<open>logged\<close> is the
  logarithm of entry \<open>(lyrmin + i, lmin + j)\<close> of the spectrum. For a spectrum of shape
  (10, 21) with \<open>lmin = 2\<close>, \<open>lmax = 10\<close>, \<open>lyrmin = 1\<close>, \<open>lyrmax = 5\<close> the slice has shape
  (4, 9).
\<close>

theorem spectrum_slice:
  assumes "has_shape (indat a) nr nc"
    and "0 \<le> lyrmin a" and "lyrmin a \<le> lyrmax a" and "lyrmax a \<le> int nr"
    and "0 \<le> lmin a" and "lmin a \<le> lmax a" and "lmax a < int nc"
  shows "\<exists>L. sh_logged (snd (spectral_heterogeneity lib m a)) = Some L
     \<and> has_shape L (nat (lyrmax a - lyrmin a)) (nat (lmax a - lmin a + 1))
     \<and> (\<forall>i<nat (lyrmax a - lyrmin a). \<forall>j<nat (lmax a - lmin a + 1).
           L ! i ! j = np_log (indat a ! (nat (lyrmin a) + i) ! (nat (lmin a) + j)))
     \<and> (nr = 10 \<and> nc = 21 \<and> lmin a = 2 \<and> lmax a = 10 \<and> lyrmin a = 1 \<and> lyrmax a = 5
          \<longrightarrow> has_shape L 4 9)"
proof -
  let ?rows = "py_slice (indat a) (lyrmin a) (lyrmax a)"
  let ?L = "map (map np_log) (py_slice2 (indat a) (lyrmin a) (lyrmax a) (lmin a) (lmax a + 1))"
  have len: "length (indat a) = nr" and rows: "\<And>row. row \<in> set (indat a) \<Longrightarrow> length row = nc"
    using assms(1) by (simp_all add: has_shape_def list_all_iff)
  have hi: "lyrmax a \<le> int (length (indat a))"
    using assms(4) len by simp
  have nrows: "length ?rows = nat (lyrmax a - lyrmin a)"
    using py_slice_in_range(1) [OF assms(2,3) hi] .
  have row_at: "?rows ! i = indat a ! (nat (lyrmin a) + i)" if "i < nat (lyrmax a - lyrmin a)" for i
    using py_slice_in_range(2) [OF assms(2,3) hi that] .
  have row_len: "length (?rows ! i) = nc" if "i < nat (lyrmax a - lyrmin a)" for i
  proof -
    have "nat (lyrmin a) + i < length (indat a)" using that hi assms(2) by linarith
    then show ?thesis using rows row_at [OF that] by simp
  qed
  have c0: "0 \<le> lmin a" and c1: "lmin a \<le> lmax a + 1" using assms(5,6) by simp_all
  have col_len: "length (py_slice (?rows ! i) (lmin a) (lmax a + 1)) = nat (lmax a - lmin a + 1)"
    if "i < nat (lyrmax a - lyrmin a)" for i
  proof -
    have "lmax a + 1 \<le> int (length (?rows ! i))" using row_len [OF that] assms(7) by simp
    from py_slice_in_range(1) [OF c0 c1 this] show ?thesis by (simp add: algebra_simps)
  qed
  have col_at: "py_slice (?rows ! i) (lmin a) (lmax a + 1) ! j = indat a ! (nat (lyrmin a) + i) ! (nat (lmin a) + j)"
    if "i < nat (lyrmax a - lyrmin a)" and "j < nat (lmax a - lmin a + 1)" for i j
  proof -
    have "lmax a + 1 \<le> int (length (?rows ! i))" using row_len [OF that(1)] assms(7) by simp
    moreover have "j < nat (lmax a + 1 - lmin a)" using that(2) by (simp add: algebra_simps)
    ultimately show ?thesis
      using py_slice_in_range(2) [OF c0 c1, of "?rows ! i" j] row_at [OF that(1)] by simp
  qed
  have shape: "has_shape ?L (nat (lyrmax a - lyrmin a)) (nat (lmax a - lmin a + 1))"
    using nrows col_len
    by (auto simp add: has_shape_def py_slice2_def list_all_length)
  have vals: "\<forall>i<nat (lyrmax a - lyrmin a). \<forall>j<nat (lmax a - lmin a + 1).
           ?L ! i ! j = np_log (indat a ! (nat (lyrmin a) + i) ! (nat (lmin a) + j))"
    using nrows col_len col_at by (simp add: py_slice2_def)
  have special: "nr = 10 \<and> nc = 21 \<and> lmin a = 2 \<and> lmax a = 10 \<and> lyrmin a = 1 \<and> lyrmax a = 5
          \<longrightarrow> has_shape ?L 4 9"
    using shape by auto
  show ?thesis
    using sh_logged_eq shape vals special by blast
qed

theorem spectrum_slice_witness:
  "has_shape (indat spectrum_call) 10 21
   \<and> lmin spectrum_call = 2 \<and> lmax spectrum_call = 10
   \<and> lyrmin spectrum_call = 1 \<and> lyrmax spectrum_call = 5
   \<and> (\<exists>L. sh_logged (snd (spectral_heterogeneity strict_library cartopy_present spectrum_call))
            = Some L
          \<and> has_shape L 4 9 \<and> L ! 3 ! 8 = np_log (indat spectrum_call ! 4 ! 10))"
proof -
  have h1: "has_shape (indat spectrum_call) 10 21"
    by code_simp
  have h: "0 \<le> lyrmin spectrum_call" "lyrmin spectrum_call \<le> lyrmax spectrum_call"
    "lyrmax spectrum_call \<le> int 10" "0 \<le> lmin spectrum_call"
    "lmin spectrum_call \<le> lmax spectrum_call" "lmax spectrum_call < int 21"
    by (simp_all add: spectrum_call_def)
  have v: "lmin spectrum_call = 2" "lmax spectrum_call = 10"
    "lyrmin spectrum_call = 1" "lyrmax spectrum_call = 5"
    by (simp_all add: spectrum_call_def)
  obtain L where
    L: "sh_logged (snd (spectral_heterogeneity strict_library cartopy_present spectrum_call))
          = Some L"
    and shape: "has_shape L 4 9"
    and at: "\<forall>i<nat (lyrmax spectrum_call - lyrmin spectrum_call).
        \<forall>j<nat (lmax spectrum_call - lmin spectrum_call + 1).
          L ! i ! j = np_log (indat spectrum_call ! (nat (lyrmin spectrum_call) + i)
                                ! (nat (lmin spectrum_call) + j))"
    using spectrum_slice [OF h1 h, of strict_library cartopy_present] v by auto
  have "L ! 3 ! 8 = np_log (indat spectrum_call ! 4 ! 10)"
    using at [rule_format, of 3 8] by (simp add: v)
  then show ?thesis
    using h1 v L shape by blast
qed

section \<open>The gate on the mapping library\<close>

text \<open>
  C6: when \<open>import cartopy.crs\<close> failed while the module was loaded, every call of
  \<open>layer_grid\<close> writes its diagnostic to standard error and raises the import error that
  was caught, having done nothing else. \<open>spectral_heterogeneity\<close> does then what it does
  with the library present. In particular, when the logged slice of the spectrum has a
  least and a greatest element and the plotting library lets the calls of lines 165-189
  return, it returns the figure and axes after the filled contour of the logged slice
  over the degrees \<open>lmin\<close> to \<open>lmax\<close> and the depths of the layers, with ten levels from the
  least to the greatest logarithm, and after the other plotting calls.
\<close>

theorem absent_cartopy_reraised:
  "layer_grid lib (load_module (Some msg)) a =
     (Inl (ImportError msg),
      frame0\<lparr>st_stderr := [''layer_grid require cartopy to be installed'']\<rparr>)
   \<and> spectral_heterogeneity lib (load_module (Some msg)) b
       = spectral_heterogeneity lib (load_module None) b
   \<and> (let L = map (map np_log)
                 (py_slice2 (indat b) (lyrmin b) (lyrmax b) (lmin b) (lmax b + 1));
          deps = py_slice (depths b) (lyrmin b) (lyrmax b)
      in \<forall>lo hi.
           np_min L = Inr lo \<and> np_max L = Inr hi \<and> accepts lib (sh_calls b L lo hi)
           \<longrightarrow> spectral_heterogeneity lib (load_module (Some msg)) b =
                 (Inr (sh_subplots_kwargs b,
                       Contourf [lmin b..lmax b] deps L lo hi 10
                       # tl (sh_render b deps L lo hi)),
                  \<lparr>sh_logged = Some L, sh_deps = Some deps,
                   sh_fig = Some (sh_subplots_kwargs b),
                   sh_drawn = Contourf [lmin b..lmax b] deps L lo hi 10
                              # tl (sh_render b deps L lo hi)\<rparr>))"
proof (intro conjI)
  show "layer_grid lib (load_module (Some msg)) a =
     (Inl (ImportError msg),
      frame0\<lparr>st_stderr := [''layer_grid require cartopy to be installed'']\<rparr>)"
    by (simp add: layer_grid_def load_module_def)
  show "spectral_heterogeneity lib (load_module (Some msg)) b
       = spectral_heterogeneity lib (load_module None) b"
    by (simp add: spectral_heterogeneity_def)
next
  let ?L = "map (map np_log) (py_slice2 (indat b) (lyrmin b) (lyrmax b) (lmin b) (lmax b + 1))"
  let ?deps = "py_slice (depths b) (lyrmin b) (lyrmax b)"
  have first: "sh_render b ?deps ?L lo hi =
      Contourf [lmin b..lmax b] ?deps ?L lo hi 10 # tl (sh_render b ?deps ?L lo hi)" for lo hi
    by (simp add: sh_render_def)
  have "spectral_heterogeneity lib (load_module (Some msg)) b =
       (Inr (sh_subplots_kwargs b, sh_render b ?deps ?L lo hi),
        \<lparr>sh_logged = Some ?L, sh_deps = Some ?deps, sh_fig = Some (sh_subplots_kwargs b),
         sh_drawn = sh_render b ?deps ?L lo hi\<rparr>)"
    if "np_min ?L = Inr lo" and "np_max ?L = Inr hi" and "accepts lib (sh_calls b ?L lo hi)"
    for lo hi
    using that by (intro sh_accepted) (simp_all add: sh_logged_eq)
  then show "let L = ?L; deps = ?deps
      in \<forall>lo hi.
           np_min L = Inr lo \<and> np_max L = Inr hi \<and> accepts lib (sh_calls b L lo hi)
           \<longrightarrow> spectral_heterogeneity lib (load_module (Some msg)) b =
                 (Inr (sh_subplots_kwargs b,
                       Contourf [lmin b..lmax b] deps L lo hi 10
                       # tl (sh_render b deps L lo hi)),
                  \<lparr>sh_logged = Some L, sh_deps = Some deps,
                   sh_fig = Some (sh_subplots_kwargs b),
                   sh_drawn = Contourf [lmin b..lmax b] deps L lo hi 10
                              # tl (sh_render b deps L lo hi)\<rparr>)"
    unfolding Let_def using first by metis
qed

theorem absent_cartopy_reraised_witness:
  "layer_grid strict_library cartopy_absent example_call =
     (Inl (ImportError ''No module named cartopy''),
      \<lparr>st_stderr = [''layer_grid require cartopy to be installed''], st_fig = None,
       st_delta = None, st_grid_lons = None, st_grid_lats = None, st_grid_lon = None,
       st_grid_lat = None, st_grid = None, st_drawn = []\<rparr>)
   \<and> accepts strict_library
        (sh_calls spectrum_call (replicate 4 (map (\<lambda>l. Ln (rat_of_nat l)) [3..<12]))
           (Ln 3) (Ln 11))
   \<and> spectral_heterogeneity strict_library cartopy_absent spectrum_call =
       (Inr ([],
            [Contourf [2, 3, 4, 5, 6, 7, 8, 9, 10] [100, 200, 300, 400]
               (replicate 4 (map (\<lambda>l. Ln (rat_of_nat l)) [3..<12])) (Ln 3) (Ln 11) 10,
             Set_ylabel ''Depth (km)'', Sh_set_xlabel ''L'', Set_xlim 1 11,
             Set_title ''Spherical Harmonic Power Spectrum'', Invert_yaxis,
             Fig_colorbar, Cbar_set_label ''ln(Power)'']),
        \<lparr>sh_logged = Some (replicate 4 (map (\<lambda>l. Ln (rat_of_nat l)) [3..<12])),
         sh_deps = Some [100, 200, 300, 400], sh_fig = Some [],
         sh_drawn =
           [Contourf [2, 3, 4, 5, 6, 7, 8, 9, 10] [100, 200, 300, 400]
              (replicate 4 (map (\<lambda>l. Ln (rat_of_nat l)) [3..<12])) (Ln 3) (Ln 11) 10,
            Set_ylabel ''Depth (km)'', Sh_set_xlabel ''L'', Set_xlim 1 11,
            Set_title ''Spherical Harmonic Power Spectrum'', Invert_yaxis,
            Fig_colorbar, Cbar_set_label ''ln(Power)'']\<rparr>)"
proof -
  let ?L = "replicate 4 (map (\<lambda>l. Ln (rat_of_nat l)) [3..<12])"
  let ?b = spectrum_call
  have L: "map (map np_log) (py_slice2 (indat ?b) (lyrmin ?b) (lyrmax ?b) (lmin ?b) (lmax ?b + 1))
      = ?L"
    by code_simp
  have deps: "py_slice (depths ?b) (lyrmin ?b) (lyrmax ?b) = [100, 200, 300, 400]"
    by code_simp
  have lo: "np_min ?L = Inr (Ln 3)" and hi: "np_max ?L = Inr (Ln 11)"
    by code_simp+
  have acc: "accepts strict_library (sh_calls ?b ?L (Ln 3) (Ln 11))"
    by code_simp
  have calls: "Contourf [lmin ?b..lmax ?b] [100, 200, 300, 400] ?L (Ln 3) (Ln 11) 10
        # tl (sh_render ?b [100, 200, 300, 400] ?L (Ln 3) (Ln 11))
      = [Contourf [2, 3, 4, 5, 6, 7, 8, 9, 10] [100, 200, 300, 400] ?L (Ln 3) (Ln 11) 10,
         Set_ylabel ''Depth (km)'', Sh_set_xlabel ''L'', Set_xlim 1 11,
         Set_title ''Spherical Harmonic Power Spectrum'', Invert_yaxis,
         Fig_colorbar, Cbar_set_label ''ln(Power)'']"
    by code_simp
  have kw: "sh_subplots_kwargs ?b = []"
    by (simp add: spectrum_call_def)
  note gate = absent_cartopy_reraised [of strict_library "''No module named cartopy''"
      example_call ?b, folded cartopy_absent_def, unfolded Let_def L deps kw]
  have usable: "spectral_heterogeneity strict_library cartopy_absent ?b =
       (Inr ([],
            Contourf [lmin ?b..lmax ?b] [100, 200, 300, 400] ?L (Ln 3) (Ln 11) 10
            # tl (sh_render ?b [100, 200, 300, 400] ?L (Ln 3) (Ln 11))),
        \<lparr>sh_logged = Some ?L, sh_deps = Some [100, 200, 300, 400], sh_fig = Some [],
         sh_drawn = Contourf [lmin ?b..lmax ?b] [100, 200, 300, 400] ?L (Ln 3) (Ln 11) 10
            # tl (sh_render ?b [100, 200, 300, 400] ?L (Ln 3) (Ln 11))\<rparr>)"
    using gate lo hi acc by blast
  have raised: "layer_grid strict_library cartopy_absent example_call =
     (Inl (ImportError ''No module named cartopy''),
      \<lparr>st_stderr = [''layer_grid require cartopy to be installed''], st_fig = None,
       st_delta = None, st_grid_lons = None, st_grid_lats = None, st_grid_lon = None,
       st_grid_lat = None, st_grid = None, st_drawn = []\<rparr>)"
    using gate by (simp add: frame0_def)
  from raised acc usable [unfolded calls] show ?thesis
    by (intro conjI)
qed

section \<open>The checks of the extent, the spacing and the method\<close>

text \<open>
  C7: when the mapping library was found at load time and \<open>plt.subplots\<close> of line 64
  returns, a call whose extent does not have four values, or has its maximum longitude
  at or below the minimum, or its maximum latitude at or below the minimum, raises the
  \<open>ValueError\<close> of the first of these checks that fails.
\<close>

theorem extent_rejected:
  assumes "CARTOPY_INSTALLED m"
    and "lib (Plt_subplots (subplots_kwargs a)) = None"
    and "length (extent a) \<noteq> 4 \<or> extent a ! 1 \<le> extent a ! 0 \<or> extent a ! 3 \<le> extent a ! 2"
  shows "fst (layer_grid lib m a) =
     Inl (if length (extent a) \<noteq> 4 then ValueError ''extent must contain four values'' []
          else if extent a ! 1 \<le> extent a ! 0 then
            ValueError ''maximum longitude must be more than minimum; havemin = {} and max = {}''
              [extent a ! 0, extent a ! 1]
          else ValueError ''maximum latitude must be more than minimum; havemin = {} and max = {}''
              [extent a ! 2, extent a ! 3])"
  using assms by (auto simp add: layer_grid_def Let_def)

theorem extent_rejected_witness:
  "CARTOPY_INSTALLED cartopy_present
   \<and> strict_library (Plt_subplots (subplots_kwargs (example_call\<lparr>extent := [0, 1, 2]\<rparr>))) = None
   \<and> length (extent (example_call\<lparr>extent := [0, 1, 2]\<rparr>)) \<noteq> 4
   \<and> fst (layer_grid strict_library cartopy_present (example_call\<lparr>extent := [0, 1, 2]\<rparr>))
       = Inl (ValueError ''extent must contain four values'' [])"
proof -
  let ?a = "example_call\<lparr>extent := [0, 1, 2]\<rparr>"
  have h1: "CARTOPY_INSTALLED cartopy_present"
    by (rule cartopy_present_installed)
  have h2: "strict_library (Plt_subplots (subplots_kwargs ?a)) = None"
    by code_simp
  have h3: "length (extent ?a) \<noteq> 4 \<or> extent ?a ! 1 \<le> extent ?a ! 0
      \<or> extent ?a ! 3 \<le> extent ?a ! 2"
    by simp
  show ?thesis
    using h1 h2 extent_rejected [where lib = strict_library, OF h1 h2 h3] by simp
qed

text \<open>
  Without the mapping library the call raises the import error instead, and with it but
  with a keyword that the axes do not take it raises in \<open>plt.subplots\<close>.
\<close>

theorem extent_unchecked_without_cartopy:
  "length (extent (example_call\<lparr>extent := [0, 1, 2]\<rparr>)) \<noteq> 4
   \<and> fst (layer_grid strict_library cartopy_absent (example_call\<lparr>extent := [0, 1, 2]\<rparr>))
       = Inl (ImportError ''No module named cartopy'')
   \<and> fst (layer_grid strict_library cartopy_present
            (example_call\<lparr>extent := [0, 1, 2], subplots_kwargs := [(''figsize'', ''(8, 6)'')]\<rparr>))
       = Inl (LibraryError ''unexpected keyword argument figsize'')"
proof -
  have "fst (layer_grid strict_library cartopy_absent (example_call\<lparr>extent := [0, 1, 2]\<rparr>))
       = Inl (ImportError ''No module named cartopy'')"
    by code_simp
  moreover have "fst (layer_grid strict_library cartopy_present
            (example_call\<lparr>extent := [0, 1, 2], subplots_kwargs := [(''figsize'', ''(8, 6)'')]\<rparr>))
       = Inl (LibraryError ''unexpected keyword argument figsize'')"
    by code_simp
  ultimately show ?thesis
    by simp
qed

text \<open>
  C8: when the mapping library was found at load time and \<open>plt.subplots\<close> of line 64
  returns, a call with a spacing at or below zero raises a \<open>ValueError\<close>: the one about
  the spacing when the extent is valid, the one about the extent otherwise. A call
  without a spacing and with a valid extent uses the greater of the longitude range and
  the latitude range, divided by 200, and its grid lines, when they can be made, are
  made with it.
\<close>

theorem delta_rejected_or_derived:
  assumes "CARTOPY_INSTALLED m"
    and "lib (Plt_subplots (subplots_kwargs a)) = None"
  shows "(\<forall>d. delta a = Some d \<and> d \<le> 0 \<longrightarrow>
           fst (layer_grid lib m a) =
             Inl (if length (extent a) \<noteq> 4 then ValueError ''extent must contain four values'' []
                  else if extent a ! 1 \<le> extent a ! 0 then
                    ValueError ''maximum longitude must be more than minimum; havemin = {} and max = {}''
                      [extent a ! 0, extent a ! 1]
                  else if extent a ! 3 \<le> extent a ! 2 then
                    ValueError ''maximum latitude must be more than minimum; havemin = {} and max = {}''
                      [extent a ! 2, extent a ! 3]
                  else ValueError ''delta must be more than 0'' []))
       \<and> (delta a = None \<and> length (extent a) = 4 \<and> extent a ! 0 < extent a ! 1
            \<and> extent a ! 2 < extent a ! 3 \<longrightarrow>
           (let d = max (extent a ! 1 - extent a ! 0) (extent a ! 3 - extent a ! 2) / 200;
                s = snd (layer_grid lib m a)
            in st_delta s = Some d
               \<and> (accepts lib (array_calls a d) \<longrightarrow>
                    st_grid_lons s = Some (np_arange (extent a ! 0) (extent a ! 1) d)
                    \<and> st_grid_lats s = Some (np_arange (extent a ! 2) (extent a ! 3) d))))"
  using assms
  by (auto simp add: layer_grid_def Let_def build_and_draw_fixed build_and_draw_lines)

theorem delta_rejected_or_derived_witness:
  "CARTOPY_INSTALLED cartopy_present
   \<and> strict_library (Plt_subplots []) = None
   \<and> fst (layer_grid strict_library cartopy_present (example_call\<lparr>delta := Some 0\<rparr>))
       = Inl (ValueError ''delta must be more than 0'' [])
   \<and> accepts strict_library (array_calls (example_call\<lparr>delta := None\<rparr>) (9 / 5))
   \<and> st_delta (snd (layer_grid strict_library cartopy_present (example_call\<lparr>delta := None\<rparr>)))
       = Some (9 / 5)
   \<and> st_grid_lats (snd (layer_grid strict_library cartopy_present (example_call\<lparr>delta := None\<rparr>)))
       = Some (np_arange (- 90) 90 (9 / 5))"
proof -
  have h1: "CARTOPY_INSTALLED cartopy_present"
    by (rule cartopy_present_installed)
  have h2: "strict_library (Plt_subplots []) = None"
    by code_simp
  have h2a: "strict_library (Plt_subplots (subplots_kwargs (example_call\<lparr>delta := Some 0\<rparr>))) = None"
    and h2b: "strict_library (Plt_subplots (subplots_kwargs (example_call\<lparr>delta := None\<rparr>))) = None"
    using h2 by (simp_all add: example_call_simps)
  have acc: "accepts strict_library (array_calls (example_call\<lparr>delta := None\<rparr>) (9 / 5))"
    by code_simp
  show ?thesis
    using h1 h2 acc
      delta_rejected_or_derived [where lib = strict_library, OF h1 h2a]
      delta_rejected_or_derived [where lib = strict_library, OF h1 h2b]
    by (simp add: example_call_simps Let_def)
qed

text \<open>
  Without the mapping library a call with a negative spacing raises the import error,
  and with it but with a keyword that the axes do not take it raises in \<open>plt.subplots\<close>.
\<close>

theorem delta_unchecked_without_cartopy:
  "delta (example_call\<lparr>delta := Some (- 1)\<rparr>) = Some (- 1)
   \<and> fst (layer_grid strict_library cartopy_absent (example_call\<lparr>delta := Some (- 1)\<rparr>))
       = Inl (ImportError ''No module named cartopy'')
   \<and> fst (layer_grid strict_library cartopy_present
            (example_call\<lparr>delta := Some (- 1), subplots_kwargs := [(''figsize'', ''(8, 6)'')]\<rparr>))
       = Inl (LibraryError ''unexpected keyword argument figsize'')"
proof -
  have "fst (layer_grid strict_library cartopy_absent (example_call\<lparr>delta := Some (- 1)\<rparr>))
       = Inl (ImportError ''No module named cartopy'')"
    by code_simp
  moreover have "fst (layer_grid strict_library cartopy_present
            (example_call\<lparr>delta := Some (- 1), subplots_kwargs := [(''figsize'', ''(8, 6)'')]\<rparr>))
       = Inl (LibraryError ''unexpected keyword argument figsize'')"
    by code_simp
  ultimately show ?thesis
    by simp
qed

text \<open>
  C9: when the mapping library was found at load time, \<open>plt.subplots\<close> of line 64
  returns and the grid lines and the mesh of lines 91-93 can be made, a call with a valid
  extent, a spacing that is omitted or above zero and a method other than \<open>nearest\<close> and
  \<open>mean\<close> raises the \<open>ValueError\<close> whose message is \<open>unsupported method\<close> followed by the
  method between single quotes.
\<close>

theorem method_rejected:
  assumes "CARTOPY_INSTALLED m"
    and "lib (Plt_subplots (subplots_kwargs a)) = None"
    and "length (extent a) = 4" and "extent a ! 0 < extent a ! 1" and "extent a ! 2 < extent a ! 3"
    and "(delta a = None
          \<and> d = max (extent a ! 1 - extent a ! 0) (extent a ! 3 - extent a ! 2) / 200)
         \<or> (delta a = Some d \<and> 0 < d)"
    and "accepts lib (array_calls a d)"
    and "method_in a \<noteq> ''nearest''" and "method_in a \<noteq> ''mean''"
  shows "fst (layer_grid lib m a) =
     Inl (ValueError (''unsupported method '' @ [CHR 0x27] @ method_in a @ [CHR 0x27]) [])"
proof -
  have run: "layer_grid lib m a =
      build_and_draw lib a d (frame0\<lparr>st_fig := Some (subplots_kwargs a)\<rparr>)"
  proof (cases "delta a")
    case None
    with assms(6) have d: "d = max (extent a ! 1 - extent a ! 0) (extent a ! 3 - extent a ! 2) / 200"
      by simp
    show ?thesis
      unfolding d using assms(1-5) None by (simp add: layer_grid_def Let_def)
  next
    case (Some d')
    with assms(6) have "d' = d" and "0 < d"
      by simp_all
    with Some show ?thesis
      using assms(1-5) by (simp add: layer_grid_def Let_def)
  qed
  show ?thesis
    unfolding run by (simp add: build_and_draw_unsupported [OF assms(7,8,9)])
qed

theorem method_rejected_witness:
  "CARTOPY_INSTALLED cartopy_present
   \<and> strict_library (Plt_subplots []) = None
   \<and> accepts strict_library (array_calls (example_call\<lparr>method_in := ''cubic''\<rparr>) 90)
   \<and> method_in (example_call\<lparr>method_in := ''cubic''\<rparr>) \<noteq> ''nearest''
   \<and> method_in (example_call\<lparr>method_in := ''cubic''\<rparr>) \<noteq> ''mean''
   \<and> fst (layer_grid strict_library cartopy_present (example_call\<lparr>method_in := ''cubic''\<rparr>))
     = Inl (ValueError (''unsupported method '' @ [CHR 0x27] @ ''cubic'' @ [CHR 0x27]) [])"
proof -
  let ?a = "example_call\<lparr>method_in := ''cubic''\<rparr>"
  have h1: "CARTOPY_INSTALLED cartopy_present"
    by (rule cartopy_present_installed)
  have h2: "strict_library (Plt_subplots []) = None"
    by code_simp
  have h2a: "strict_library (Plt_subplots (subplots_kwargs ?a)) = None"
    using h2 by (simp add: example_call_simps)
  have h3: "length (extent ?a) = 4" "extent ?a ! 0 < extent ?a ! 1" "extent ?a ! 2 < extent ?a ! 3"
    "(delta ?a = None
      \<and> 90 = max (extent ?a ! 1 - extent ?a ! 0) (extent ?a ! 3 - extent ?a ! 2) / 200)
     \<or> (delta ?a = Some 90 \<and> (0::rat) < 90)"
    by (simp_all add: example_call_simps)
  have h4: "accepts strict_library (array_calls ?a 90)"
    by code_simp
  have h5: "method_in ?a \<noteq> ''nearest''" "method_in ?a \<noteq> ''mean''"
    by simp_all
  show ?thesis
    using h1 h2 h4 h5 method_rejected [where lib = strict_library, OF h1 h2a h3 h4 h5] by simp
qed

text \<open>
  Without the mapping library a call with an unknown method raises the import error;
  with it, the call raises in \<open>plt.subplots\<close> on a keyword that the axes do not take, and
  in \<open>np.arange\<close> on a spacing so small that the longitude lines cannot be made.
\<close>

theorem method_unchecked_without_cartopy:
  "method_in (example_call\<lparr>method_in := ''cubic''\<rparr>) = ''cubic''
   \<and> fst (layer_grid strict_library cartopy_absent (example_call\<lparr>method_in := ''cubic''\<rparr>))
       = Inl (ImportError ''No module named cartopy'')
   \<and> fst (layer_grid strict_library cartopy_present
            (example_call\<lparr>method_in := ''cubic'', subplots_kwargs := [(''figsize'', ''(8, 6)'')]\<rparr>))
       = Inl (LibraryError ''unexpected keyword argument figsize'')
   \<and> fst (layer_grid strict_library cartopy_present
            (example_call\<lparr>method_in := ''cubic'', delta := Some (1 / 10 ^ 20)\<rparr>))
       = Inl (LibraryError ''Maximum allowed size exceeded'')"
proof -
  have "fst (layer_grid strict_library cartopy_absent (example_call\<lparr>method_in := ''cubic''\<rparr>))
       = Inl (ImportError ''No module named cartopy'')"
    by code_simp
  moreover have "fst (layer_grid strict_library cartopy_present
            (example_call\<lparr>method_in := ''cubic'', subplots_kwargs := [(''figsize'', ''(8, 6)'')]\<rparr>))
       = Inl (LibraryError ''unexpected keyword argument figsize'')"
    by code_simp
  moreover have "fst (layer_grid strict_library cartopy_present
            (example_call\<lparr>method_in := ''cubic'', delta := Some (1 / 10 ^ 20)\<rparr>))
       = Inl (LibraryError ''Maximum allowed size exceeded'')"
    by code_simp
  ultimately show ?thesis
    by simp
qed

section \<open>An empty slice of the spectrum\<close>



text \<open>
  A negative bound counts from the end: with \<open>lyrmin = 0\<close> and \<open>lyrmax = -1\<close> the slice
  keeps nine of the ten layers, although \<open>lyrmax \<le> lyrmin\<close>.
\<close>

lemma negative_bound_counts_from_end:
  "map length (the (sh_logged (snd (spectral_heterogeneity strict_library cartopy_present
       (spectrum_call\<lparr>lyrmin := 0, lyrmax := - 1\<rparr>)))))
     = [9, 9, 9, 9, 9, 9, 9, 9, 9]"
  by code_simp

text \<open>
  A slice with elements does not by itself give the figure and axes: on a slice of one
  layer \<open>ax.contourf\<close> refuses the array, and the call raises after the figure was made.
\<close>

lemma one_layer_slice_refused:
  "fst (spectral_heterogeneity strict_library cartopy_present (spectrum_call\<lparr>lyrmax := 2\<rparr>))
     = Inl (LibraryError ''Input z must be at least a (2, 2) shaped array that fits x and y'')"
  by code_simp

end
